theory Spec2Isabelle
  imports Complex_Main
begin

section \<open>Values shared by the components\<close>

text \<open>
  JSON documents (tenant settings, request bodies) are values of \<open>json\<close>. A JSON number is
  a finite decimal, hence a rational. An object is an association list read with
  \<open>map_of\<close>. JavaScript strings are modelled as \<open>string\<close>; \<open>toLowerCase\<close> acts on the
  ASCII letters and \<open>trim\<close> removes the white-space characters of the Latin-1 range.
\<close>

datatype json =
    JNull
  | JBool bool
  | JNumber rat
  | JString string
  | JArray "json list"
  | JObject "(string \<times> json) list"

type_synonym json_object = "(string \<times> json) list"

definition isWhiteSpace :: "char \<Rightarrow> bool" where
  "isWhiteSpace c \<longleftrightarrow>
     c \<in> set [CHR 0x09, CHR 0x0A, CHR 0x0B, CHR 0x0C, CHR 0x0D, CHR 0x20, CHR 0xA0]"

definition trim :: "string \<Rightarrow> string" where
  "trim s = rev (dropWhile isWhiteSpace (rev (dropWhile isWhiteSpace s)))"

definition lowerChar :: "char \<Rightarrow> char" where
  "lowerChar c =
     (case map_of (zip ''ABCDEFGHIJKLMNOPQRSTUVWXYZ'' ''abcdefghijklmnopqrstuvwxyz'') c of
        Some d \<Rightarrow> d
      | None \<Rightarrow> c)"

definition toLowerCase :: "string \<Rightarrow> string" where
  "toLowerCase s = map lowerChar s"

section \<open>Reward rule evaluator\<close>

subsection \<open>Rule normalisation (lib/rewards/normalize)\<close>

record RewardRulesConfig =
  onboarding_bonus :: rat
  referral_reward_free :: rat
  referral_reward_pro :: rat
  referral_reward_power_pro :: rat
  currency :: string

definition DEFAULT_REWARD_RULES :: RewardRulesConfig where
  "DEFAULT_REWARD_RULES =
     \<lparr> onboarding_bonus = 0,
       referral_reward_free = 100,
       referral_reward_pro = 200,
       referral_reward_power_pro = 300,
       currency = ''AUD'' \<rparr>"

text \<open>\<open>typeof v === "number" ? v : d\<close> for a property that may be absent.\<close>

definition numberOr :: "json option \<Rightarrow> rat \<Rightarrow> rat" where
  "numberOr v d = (case v of Some (JNumber n) \<Rightarrow> n | _ \<Rightarrow> d)"

definition normalizeRewardRules :: "json_object option \<Rightarrow> RewardRulesConfig" where
  "normalizeRewardRules rawRules =
     (case rawRules of
        None \<Rightarrow> DEFAULT_REWARD_RULES
      | Some raw \<Rightarrow>
          \<lparr> onboarding_bonus =
              numberOr (map_of raw ''onboarding_bonus'') (onboarding_bonus DEFAULT_REWARD_RULES),
            referral_reward_free =
              numberOr (map_of raw ''referral_reward_free'')
                (referral_reward_free DEFAULT_REWARD_RULES),
            referral_reward_pro =
              numberOr (map_of raw ''referral_reward_pro'')
                (referral_reward_pro DEFAULT_REWARD_RULES),
            referral_reward_power_pro =
              numberOr (map_of raw ''referral_reward_power_pro'')
                (referral_reward_power_pro DEFAULT_REWARD_RULES),
            currency =
              (case map_of raw ''currency'' of
                 Some (JString c) \<Rightarrow>
                   if trim c \<noteq> '''' then c else currency DEFAULT_REWARD_RULES
               | _ \<Rightarrow> currency DEFAULT_REWARD_RULES) \<rparr>)"

datatype SubscriptionTier = Free | Pro | PowerPro

fun tierName :: "SubscriptionTier \<Rightarrow> string" where
  "tierName Free = ''free''"
| "tierName Pro = ''pro''"
| "tierName PowerPro = ''power_pro''"

fun getRewardAmountForTier :: "RewardRulesConfig \<Rightarrow> SubscriptionTier \<Rightarrow> rat" where
  "getRewardAmountForTier rules Free = referral_reward_free rules"
| "getRewardAmountForTier rules Pro = referral_reward_pro rules"
| "getRewardAmountForTier rules PowerPro = referral_reward_power_pro rules"

text \<open>The argument is \<open>None\<close> for \<open>null\<close>/\<open>undefined\<close>; the empty string is falsy as well.\<close>

definition normalizeSubscriptionTier :: "string option \<Rightarrow> SubscriptionTier" where
  "normalizeSubscriptionTier tier =
     (case tier of
        None \<Rightarrow> Free
      | Some t \<Rightarrow>
          if t = '''' then Free
          else
            let normalized = trim (toLowerCase t) in
            if normalized = ''pro'' then Pro
            else if normalized = ''power_pro'' \<or> normalized = ''powerpro'' then PowerPro
            else Free)"

subsection \<open>Reward calculation (lib/rewards/engine)\<close>

record RewardJson =
  rj_type :: string
  rj_amount :: rat
  rj_currency :: string
  rj_description :: string
  rj_referralId :: "string option"
  rj_referrerTier :: "string option"
  rj_referredExternalUserId :: "string option"
  rj_referrerExternalUserId :: "string option"

record RewardEntry =
  re_userId :: string
  re_eventId :: string
  re_source :: string
  re_rewardJson :: RewardJson

record CalculateRewardsInput =
  ci_referralId :: string
  ci_referrerUserId :: string
  ci_referrerExternalUserId :: string
  ci_referrerTier :: string
  ci_referredUserId :: string
  ci_referredExternalUserId :: string
  ci_tenantRewardSettings :: "json_object option"

record CalculateRewardsOutput =
  referrerReward :: "RewardEntry option"
  referredReward :: "RewardEntry option"

definition calculateReferrerReward ::
  "CalculateRewardsInput \<Rightarrow> RewardRulesConfig \<Rightarrow> SubscriptionTier \<Rightarrow> RewardEntry option" where
  "calculateReferrerReward input rules tier =
     (let amount = getRewardAmountForTier rules tier in
      if amount \<le> 0 then None
      else
        let eventId = ''ref_reward_'' @ ci_referralId input @ ''_'' @ ci_referrerUserId input in
        Some \<lparr> re_userId = ci_referrerUserId input,
               re_eventId = eventId,
               re_source = ''referral_reward'',
               re_rewardJson =
                 \<lparr> rj_type = ''credit'',
                   rj_amount = amount,
                   rj_currency = currency rules,
                   rj_description =
                     ''Referral reward for referring '' @ ci_referredExternalUserId input,
                   rj_referralId = Some (ci_referralId input),
                   rj_referrerTier = Some (tierName tier),
                   rj_referredExternalUserId = Some (ci_referredExternalUserId input),
                   rj_referrerExternalUserId = None \<rparr> \<rparr>)"

definition calculateReferredReward ::
  "CalculateRewardsInput \<Rightarrow> RewardRulesConfig \<Rightarrow> RewardEntry option" where
  "calculateReferredReward input rules =
     (let amount = onboarding_bonus rules in
      if amount \<le> 0 then None
      else
        let eventId = ''onboard_'' @ ci_referralId input @ ''_'' @ ci_referredUserId input in
        Some \<lparr> re_userId = ci_referredUserId input,
               re_eventId = eventId,
               re_source = ''onboarding_bonus'',
               re_rewardJson =
                 \<lparr> rj_type = ''credit'',
                   rj_amount = amount,
                   rj_currency = currency rules,
                   rj_description = ''Welcome bonus for signing up via referral'',
                   rj_referralId = Some (ci_referralId input),
                   rj_referrerTier = None,
                   rj_referredExternalUserId = None,
                   rj_referrerExternalUserId = Some (ci_referrerExternalUserId input) \<rparr> \<rparr>)"

definition calculateRewards :: "CalculateRewardsInput \<Rightarrow> CalculateRewardsOutput" where
  "calculateRewards input =
     (let rules = normalizeRewardRules (ci_tenantRewardSettings input);
          tier = normalizeSubscriptionTier (Some (ci_referrerTier input))
      in \<lparr> referrerReward = calculateReferrerReward input rules tier,
           referredReward = calculateReferredReward input rules \<rparr>)"

subsection \<open>Reference definition of the evaluator\<close>

text \<open>
  The evaluator as the specification words it: \<open>evaluate(tenantRules, referrerTier)\<close>
  yields the referrer amount, the referred amount and the currency. A rule field that is
  missing or not a number takes its documented default; a tier that is missing or not a
  known tier name counts as the lowest tier; a currency that is missing or empty (nothing
  but white space) is the fixed code AUD. A side whose amount is not positive gets no grant.
\<close>

definition spec_knownTier :: "string \<Rightarrow> SubscriptionTier option" where
  "spec_knownTier t =
     (let n = trim (toLowerCase t) in
      if n = ''free'' then Some Free
      else if n = ''pro'' then Some Pro
      else if n = ''power_pro'' \<or> n = ''powerpro'' then Some PowerPro
      else None)"

definition spec_ruleNumber :: "json_object option \<Rightarrow> string \<Rightarrow> rat \<Rightarrow> rat" where
  "spec_ruleNumber rules field dflt =
     (case rules of
        None \<Rightarrow> dflt
      | Some obj \<Rightarrow>
          (case map_of obj field of
             None \<Rightarrow> dflt
           | Some (JNumber n) \<Rightarrow> n
           | Some _ \<Rightarrow> dflt))"

definition spec_tierAmount :: "json_object option \<Rightarrow> SubscriptionTier \<Rightarrow> rat" where
  "spec_tierAmount rules tier =
     (case tier of
        Free \<Rightarrow> spec_ruleNumber rules ''referral_reward_free'' 100
      | Pro \<Rightarrow> spec_ruleNumber rules ''referral_reward_pro'' 200
      | PowerPro \<Rightarrow> spec_ruleNumber rules ''referral_reward_power_pro'' 300)"

definition spec_currency :: "json_object option \<Rightarrow> string" where
  "spec_currency rules =
     (case rules of
        None \<Rightarrow> ''AUD''
      | Some obj \<Rightarrow>
          (case map_of obj ''currency'' of
             Some (JString c) \<Rightarrow> if trim c = '''' then ''AUD'' else c
           | _ \<Rightarrow> ''AUD''))"

definition spec_evaluate :: "json_object option \<Rightarrow> string \<Rightarrow> rat \<times> rat \<times> string" where
  "spec_evaluate rules referrerTier =
     (case spec_knownTier referrerTier of
        Some tier \<Rightarrow> spec_tierAmount rules tier
      | None \<Rightarrow> spec_tierAmount rules Free,
      spec_ruleNumber rules ''onboarding_bonus'' 0,
      spec_currency rules)"

definition spec_grant :: "rat \<Rightarrow> string \<Rightarrow> (rat \<times> string) option" where
  "spec_grant amount cur = (if amount = 0 \<or> amount < 0 then None else Some (amount, cur))"

text \<open>The amount and currency an entry of the code grants.\<close>

definition grantOf :: "RewardEntry \<Rightarrow> rat \<times> string" where
  "grantOf e = (rj_amount (re_rewardJson e), rj_currency (re_rewardJson e))"

section \<open>Persistent state (db/schema)\<close>

text \<open>
  Each table is the list of its rows, in insertion order, with the columns the operations
  below read or write. Time stamps are milliseconds since the epoch. The identifiers that
  the database draws with \<open>defaultRandom()\<close> are handed in by the environment of each
  operation; two random UUIDs colliding on a primary key is not modelled. The reward and
  event payload columns hold the typed documents the code writes into them.
\<close>

record tenant_row =
  tn_id :: string
  tn_referralSettingsJson :: "json_object option"
  tn_webhookUrl :: "string option"

record user_row =
  us_id :: string
  us_tenantId :: string
  us_externalUserId :: string
  us_email :: "string option"
  us_plan :: string
  us_referralCode :: string
  us_createdAt :: nat
  us_updatedAt :: nat

record referral_row =
  rf_id :: string
  rf_tenantId :: string
  rf_referrerUserId :: string
  rf_referredExternalUserId :: string
  rf_referredUserId :: "string option"
  rf_refCodeUsed :: string
  rf_status :: string
  rf_createdAt :: nat
  rf_completedAt :: "nat option"

record ledger_row =
  lg_id :: string
  lg_tenantId :: string
  lg_userId :: string
  lg_source :: string
  lg_eventId :: string
  lg_rewardJson :: RewardJson
  lg_createdAt :: nat

datatype event_payload =
    ReferralClaimedPayload
      (pl_referralId: string) (pl_referrerUserId: string) (pl_referredUserId: string)
      (pl_referralCode: string) (pl_referrer: "RewardJson option")
      (pl_referred: "RewardJson option")
  | WebhookSentPayload
      (pl_deliveryId: string) (pl_eventId: string) (pl_statusCode: "nat option")
      (pl_attemptCount: nat) (pl_url: string)
  | WebhookFailedPayload
      (pl_deliveryId: string) (pl_eventId: string) (pl_statusCode: "nat option")
      (pl_attemptCount: nat) (pl_error: "string option") (pl_url: string)
  | OtherPayload json

record event_row =
  ev_id :: string
  ev_tenantId :: string
  ev_type :: string
  ev_payloadJson :: event_payload
  ev_createdAt :: nat

record delivery_row =
  wd_id :: string
  wd_tenantId :: string
  wd_eventId :: string
  wd_url :: string
  wd_status :: string
  wd_attemptCount :: nat
  wd_lastAttemptAt :: "nat option"
  wd_nextAttemptAt :: "nat option"
  wd_lastError :: "string option"
  wd_createdAt :: nat
  wd_updatedAt :: nat

text \<open>
  The table \<open>rate_limits\<close> has one counter per (tenant, key, window start), which its
  unique index makes a map.
\<close>

type_synonym rate_limits = "string \<times> string \<times> nat \<Rightarrow> int option"

record db =
  tenants :: "tenant_row list"
  users :: "user_row list"
  referrals :: "referral_row list"
  rewardsLedger :: "ledger_row list"
  events :: "event_row list"
  webhookDeliveries :: "delivery_row list"
  rateLimits :: rate_limits

subsection \<open>Queries (lib/db-helpers)\<close>

text \<open>
  The database refuses a text parameter that contains the NUL character. The queries
  below take their parameters to be free of it and do not model the refusal.
\<close>

definition getUserByExternalId :: "db \<Rightarrow> string \<Rightarrow> string \<Rightarrow> user_row option" where
  "getUserByExternalId s tenantId externalUserId =
     find (\<lambda>u. us_tenantId u = tenantId \<and> us_externalUserId u = externalUserId) (users s)"

definition getUserByReferralCode :: "db \<Rightarrow> string \<Rightarrow> string \<Rightarrow> user_row option" where
  "getUserByReferralCode s tenantId referralCode =
     find (\<lambda>u. us_tenantId u = tenantId \<and> us_referralCode u = referralCode) (users s)"

definition getUserById :: "db \<Rightarrow> string \<Rightarrow> user_row option" where
  "getUserById s userId = find (\<lambda>u. us_id u = userId) (users s)"

definition getTenant :: "db \<Rightarrow> string \<Rightarrow> tenant_row option" where
  "getTenant s tenantId = find (\<lambda>t. tn_id t = tenantId) (tenants s)"

definition getReferralByReferredExternalUserId ::
  "db \<Rightarrow> string \<Rightarrow> string \<Rightarrow> referral_row option" where
  "getReferralByReferredExternalUserId s tenantId referredExternalUserId =
     find (\<lambda>r. rf_tenantId r = tenantId \<and> rf_referredExternalUserId r = referredExternalUserId)
       (referrals s)"

definition countReferralsByReferrer :: "db \<Rightarrow> string \<Rightarrow> string \<Rightarrow> nat" where
  "countReferralsByReferrer s tenantId referrerUserId =
     length (filter (\<lambda>r. rf_tenantId r = tenantId \<and> rf_referrerUserId r = referrerUserId)
       (referrals s))"

text \<open>
  \<open>COALESCE(SUM((reward_json->>'amount')::numeric), 0)::int\<close>: the exact sum, cast to a
  32-bit integer. The cast rounds to the nearest integer, halves away from zero, and the
  statement fails when the result does not fit.
\<close>

definition numericToInt4 :: "rat \<Rightarrow> string + int" where
  "numericToInt4 x =
     (let r = (if 0 \<le> x then \<lfloor>x + 1 / 2\<rfloor> else - \<lfloor>- x + 1 / 2\<rfloor>) in
      if - 2147483648 \<le> r \<and> r \<le> 2147483647 then Inr r else Inl ''integer out of range'')"

definition sumRewardsByUser :: "db \<Rightarrow> string \<Rightarrow> string \<Rightarrow> string + int" where
  "sumRewardsByUser s tenantId userId =
     numericToInt4
       (sum_list (map (\<lambda>r. rj_amount (lg_rewardJson r))
          (filter (\<lambda>r. lg_tenantId r = tenantId \<and> lg_userId r = userId) (rewardsLedger s))))"

subsection \<open>Writes to the reward ledger\<close>

text \<open>
  \<open>insert(rewardsLedger).values(...).onConflictDoNothing()\<close>: the row is appended unless
  it collides on the unique index \<open>rewards_ledger_tenant_event_user_idx\<close>
  (tenant, event id, user), in which case nothing happens.
\<close>

definition ledgerConflict :: "ledger_row \<Rightarrow> ledger_row \<Rightarrow> bool" where
  "ledgerConflict new old \<longleftrightarrow>
     lg_tenantId old = lg_tenantId new \<and> lg_eventId old = lg_eventId new
     \<and> lg_userId old = lg_userId new"

definition insertLedgerOnConflictDoNothing :: "ledger_row \<Rightarrow> db \<Rightarrow> db" where
  "insertLedgerOnConflictDoNothing row s =
     (if list_ex (ledgerConflict row) (rewardsLedger s) then s
      else s\<lparr>rewardsLedger := rewardsLedger s @ [row]\<rparr>)"

text \<open>
  The guarded insert of the claim transaction:
  \<open>if (reward) await tx.insert(rewardsLedger).values({tenantId, userId, source, eventId,
  rewardJson}).onConflictDoNothing()\<close>.
\<close>

definition insertReward :: "string \<Rightarrow> string \<Rightarrow> nat \<Rightarrow> RewardEntry option \<Rightarrow> db \<Rightarrow> db" where
  "insertReward tenantId newId now reward s =
     (case reward of
        None \<Rightarrow> s
      | Some e \<Rightarrow>
          insertLedgerOnConflictDoNothing
            \<lparr> lg_id = newId,
              lg_tenantId = tenantId,
              lg_userId = re_userId e,
              lg_source = re_source e,
              lg_eventId = re_eventId e,
              lg_rewardJson = re_rewardJson e,
              lg_createdAt = now \<rparr> s)"

section \<open>Webhook delivery queue\<close>

subsection \<open>Enqueueing (lib/webhooks/enqueue)\<close>

record EnqueueResult =
  er_deliveryId :: string
  er_eventId :: string

definition enqueueWebhookDelivery ::
  "string \<Rightarrow> nat \<Rightarrow> string \<Rightarrow> string \<Rightarrow> string \<Rightarrow> db \<Rightarrow> EnqueueResult \<times> db" where
  "enqueueWebhookDelivery newId now tenantId eventId webhookUrl s =
     (let delivery =
            \<lparr> wd_id = newId,
              wd_tenantId = tenantId,
              wd_eventId = eventId,
              wd_url = webhookUrl,
              wd_status = ''pending'',
              wd_attemptCount = 0,
              wd_lastAttemptAt = None,
              wd_nextAttemptAt = Some now,
              wd_lastError = None,
              wd_createdAt = now,
              wd_updatedAt = now \<rparr>
      in (\<lparr> er_deliveryId = wd_id delivery, er_eventId = eventId \<rparr>,
          s\<lparr>webhookDeliveries := webhookDeliveries s @ [delivery]\<rparr>))"

definition getTenantWebhookUrl :: "db \<Rightarrow> string \<Rightarrow> string option" where
  "getTenantWebhookUrl s tenantId =
     (case find (\<lambda>t. tn_id t = tenantId) (tenants s) of
        None \<Rightarrow> None
      | Some tenant \<Rightarrow> tn_webhookUrl tenant)"

text \<open>\<open>!webhookUrl\<close> holds for \<open>null\<close> and for the empty string.\<close>

definition enqueueWebhookForExistingEvent ::
  "string \<Rightarrow> nat \<Rightarrow> string \<Rightarrow> string \<Rightarrow> db \<Rightarrow> EnqueueResult option \<times> db" where
  "enqueueWebhookForExistingEvent newId now tenantId eventId s =
     (case getTenantWebhookUrl s tenantId of
        None \<Rightarrow> (None, s)
      | Some webhookUrl \<Rightarrow>
          if webhookUrl = '''' then (None, s)
          else
            (case enqueueWebhookDelivery newId now tenantId eventId webhookUrl s of
               (r, s') \<Rightarrow> (Some r, s')))"

subsection \<open>Replay trigger (app/api/v1/webhooks/replay/route.ts)\<close>

text \<open>
  The handler behind \<open>POST\<close>, from the point where the key is authorised and the body has
  passed \<open>ReplaySchema\<close>, so that \<open>eventId\<close> is the validated identifier.
\<close>

datatype replay_outcome =
    ReplayError (rp_code: string) (rp_status: nat)
  | ReplayOk (rp_eventId: string) (rp_deliveryId: string) (rp_eventType: string) (rp_status: nat)

record replay_env =
  rpe_now :: nat
  rpe_newDeliveryId :: string

definition POST_replay :: "replay_env \<Rightarrow> string \<Rightarrow> string \<Rightarrow> db \<Rightarrow> replay_outcome \<times> db" where
  "POST_replay env ctxTenantId eventId s =
     (case find (\<lambda>e. ev_tenantId e = ctxTenantId \<and> ev_id e = eventId) (events s) of
        None \<Rightarrow> (ReplayError ''EVENT_NOT_FOUND'' 404, s)
      | Some event \<Rightarrow>
          (case find (\<lambda>t. tn_id t = ctxTenantId) (tenants s) of
             None \<Rightarrow> (ReplayError ''WEBHOOK_NOT_CONFIGURED'' 400, s)
           | Some tenant \<Rightarrow>
               (case tn_webhookUrl tenant of
                  None \<Rightarrow> (ReplayError ''WEBHOOK_NOT_CONFIGURED'' 400, s)
                | Some webhookUrl \<Rightarrow>
                    if webhookUrl = '''' then (ReplayError ''WEBHOOK_NOT_CONFIGURED'' 400, s)
                    else
                      let delivery =
                            \<lparr> wd_id = rpe_newDeliveryId env,
                              wd_tenantId = ctxTenantId,
                              wd_eventId = ev_id event,
                              wd_url = webhookUrl,
                              wd_status = ''pending'',
                              wd_attemptCount = 0,
                              wd_lastAttemptAt = None,
                              wd_nextAttemptAt = Some (rpe_now env),
                              wd_lastError = None,
                              wd_createdAt = rpe_now env,
                              wd_updatedAt = rpe_now env \<rparr>
                      in (ReplayOk (ev_id event) (wd_id delivery) (ev_type event) 201,
                          s\<lparr>webhookDeliveries := webhookDeliveries s @ [delivery]\<rparr>))))"

section \<open>Webhook dispatcher (the worker)\<close>

text \<open>
  The settings the worker reads from its process environment: the retry limit (6 when
  unset), the per-call timeout, the batch size, and the signing secret.
\<close>

record worker_config =
  WEBHOOK_RETRY_LIMIT :: nat
  WEBHOOK_TIMEOUT_MS :: nat
  BATCH_SIZE :: nat
  WEBHOOK_SIGNING_SECRET :: "string option"

definition defaultWorkerConfig :: "string \<Rightarrow> worker_config" where
  "defaultWorkerConfig secret =
     \<lparr> WEBHOOK_RETRY_LIMIT = 6,
       WEBHOOK_TIMEOUT_MS = 30000,
       BATCH_SIZE = 10,
       WEBHOOK_SIGNING_SECRET = Some secret \<rparr>"

definition RETRY_DELAYS_MS :: "nat list" where
  "RETRY_DELAYS_MS = [0, 10000, 60000, 300000, 1800000, 7200000]"

definition getNextAttemptDelay :: "nat \<Rightarrow> nat" where
  "getNextAttemptDelay attemptCount =
     (if attemptCount \<ge> length RETRY_DELAYS_MS
      then RETRY_DELAYS_MS ! (length RETRY_DELAYS_MS - 1)
      else RETRY_DELAYS_MS ! attemptCount)"

record DeliveryRecord =
  dr_id :: string
  dr_tenantId :: string
  dr_eventId :: string
  dr_url :: string
  dr_status :: string
  dr_attemptCount :: nat

text \<open>A row whose \<open>next_attempt_at\<close> is null is never due: the comparison is null.\<close>

definition isDue :: "nat \<Rightarrow> delivery_row \<Rightarrow> bool" where
  "isDue now d \<longleftrightarrow>
     wd_status d = ''pending''
     \<and> (case wd_nextAttemptAt d of None \<Rightarrow> False | Some t \<Rightarrow> t \<le> now)"

definition toDeliveryRecord :: "delivery_row \<Rightarrow> DeliveryRecord" where
  "toDeliveryRecord d =
     \<lparr> dr_id = wd_id d,
       dr_tenantId = wd_tenantId d,
       dr_eventId = wd_eventId d,
       dr_url = wd_url d,
       dr_status = wd_status d,
       dr_attemptCount = wd_attemptCount d \<rparr>"

definition fetchDueDeliveries :: "worker_config \<Rightarrow> nat \<Rightarrow> db \<Rightarrow> DeliveryRecord list" where
  "fetchDueDeliveries cfg now s =
     map toDeliveryRecord (take (BATCH_SIZE cfg) (filter (isDue now) (webhookDeliveries s)))"

text \<open>
  What the outbound call can come to: a response with its status and body text, the
  abort of the timeout, another thrown \<open>Error\<close> with its message, or a thrown value that
  is no \<open>Error\<close>.
\<close>

datatype http_outcome =
    HttpResponse nat string
  | AbortError
  | FetchError string
  | ThrownNonError

text \<open>The request sent: the destination and the event serialised into the body.\<close>

record http_request =
  hr_url :: string
  hr_event :: event_row

record worker_env =
  we_now :: nat
  we_fetch :: "http_request \<Rightarrow> http_outcome"
  we_newEventId :: string

fun showNat :: "nat \<Rightarrow> string" where
  "showNat n =
     (if n < 10 then [''0123456789'' ! n]
      else showNat (n div 10) @ [''0123456789'' ! (n mod 10)])"

declare showNat.simps [simp del]

text \<open>\<open>UPDATE webhook_deliveries SET ... WHERE id = deliveryId\<close>.\<close>

definition updateDelivery ::
  "string \<Rightarrow> (delivery_row \<Rightarrow> delivery_row) \<Rightarrow> delivery_row list \<Rightarrow> delivery_row list" where
  "updateDelivery deliveryId f ds = map (\<lambda>d. if wd_id d = deliveryId then f d else d) ds"

definition insertEvent :: "string \<Rightarrow> nat \<Rightarrow> string \<Rightarrow> string \<Rightarrow> event_payload \<Rightarrow> db \<Rightarrow> db" where
  "insertEvent newId now tenantId type payloadJson s =
     s\<lparr>events := events s @
        [\<lparr> ev_id = newId, ev_tenantId = tenantId, ev_type = type,
           ev_payloadJson = payloadJson, ev_createdAt = now \<rparr>]\<rparr>"

text \<open>The status code, the error message and the success flag after the \<open>try\<close> block.\<close>

definition attemptResult ::
  "worker_config \<Rightarrow> http_outcome \<Rightarrow> nat option \<times> string option \<times> bool" where
  "attemptResult cfg outcome =
     (case outcome of
        HttpResponse statusCode responseText \<Rightarrow>
          if 200 \<le> statusCode \<and> statusCode \<le> 299 then (Some statusCode, None, True)
          else (Some statusCode,
                Some (''HTTP '' @ showNat statusCode @ '': '' @ take 200 responseText), False)
      | AbortError \<Rightarrow>
          (None, Some (''Timeout after '' @ showNat (WEBHOOK_TIMEOUT_MS cfg) @ ''ms''), False)
      | FetchError message \<Rightarrow> (None, Some (take 200 message), False)
      | ThrownNonError \<Rightarrow> (None, Some ''Unknown error'', False))"

text \<open>
  \<open>processDelivery\<close> returns the new state and the requests it sent, or the message of
  the error it throws: \<open>getWebhookHeaders\<close> throws when no signing secret is set, before
  anything is sent or written.
\<close>

definition processDelivery ::
  "worker_config \<Rightarrow> worker_env \<Rightarrow> DeliveryRecord \<Rightarrow> db \<Rightarrow> string + (db \<times> http_request list)" where
  "processDelivery cfg env delivery s =
     (case find (\<lambda>e. ev_tenantId e = dr_tenantId delivery \<and> ev_id e = dr_eventId delivery)
             (events s) of
        None \<Rightarrow>
          Inr (s\<lparr>webhookDeliveries :=
                   updateDelivery (dr_id delivery)
                     (\<lambda>d. d\<lparr> wd_status := ''failed'',
                             wd_lastError := Some ''Event not found'',
                             wd_lastAttemptAt := Some (we_now env),
                             wd_nextAttemptAt := None,
                             wd_updatedAt := we_now env \<rparr>)
                     (webhookDeliveries s)\<rparr>, [])
      | Some event \<Rightarrow>
          if WEBHOOK_SIGNING_SECRET cfg = None \<or> WEBHOOK_SIGNING_SECRET cfg = Some ''''
          then Inl ''WEBHOOK_SIGNING_SECRET environment variable is not set''
          else
            let request = \<lparr> hr_url = dr_url delivery, hr_event = event \<rparr>;
                (statusCode, errorMessage, success) = attemptResult cfg (we_fetch env request);
                newAttemptCount = dr_attemptCount delivery + 1;
                now = we_now env
            in
            if success then
              Inr (insertEvent (we_newEventId env) now (dr_tenantId delivery) ''webhook.sent''
                     (WebhookSentPayload (dr_id delivery) (dr_eventId delivery) statusCode
                        newAttemptCount (dr_url delivery))
                     (s\<lparr>webhookDeliveries :=
                          updateDelivery (dr_id delivery)
                            (\<lambda>d. d\<lparr> wd_status := ''success'',
                                    wd_attemptCount := newAttemptCount,
                                    wd_lastAttemptAt := Some now,
                                    wd_lastError := None,
                                    wd_nextAttemptAt := None,
                                    wd_updatedAt := now \<rparr>)
                            (webhookDeliveries s)\<rparr>),
                   [request])
            else
              let exhausted = (newAttemptCount \<ge> WEBHOOK_RETRY_LIMIT cfg);
                  newStatus = (if exhausted then ''failed'' else ''pending'');
                  nextAttemptAt =
                    (if exhausted then None
                     else Some (now + getNextAttemptDelay newAttemptCount))
              in
              Inr (insertEvent (we_newEventId env) now (dr_tenantId delivery)
                     (if exhausted then ''webhook.exhausted'' else ''webhook.failed'')
                     (WebhookFailedPayload (dr_id delivery) (dr_eventId delivery) statusCode
                        newAttemptCount errorMessage (dr_url delivery))
                     (s\<lparr>webhookDeliveries :=
                          updateDelivery (dr_id delivery)
                            (\<lambda>d. d\<lparr> wd_status := newStatus,
                                    wd_attemptCount := newAttemptCount,
                                    wd_lastAttemptAt := Some now,
                                    wd_lastError := errorMessage,
                                    wd_nextAttemptAt := nextAttemptAt,
                                    wd_updatedAt := now \<rparr>)
                            (webhookDeliveries s)\<rparr>),
                   [request]))"

section \<open>Rate limiter (lib/rate-limit)\<close>

definition WINDOW_MS :: nat where
  "WINDOW_MS = 60000"

definition CLAIM_PER_IP :: int where "CLAIM_PER_IP = 20"
definition CLAIM_PER_USER :: int where "CLAIM_PER_USER = 10"
definition UPSERT_PER_TENANT :: int where "UPSERT_PER_TENANT = 60"
definition INVALID_REF_PER_IP :: int where "INVALID_REF_PER_IP = 5"

text \<open>
  No caller passes \<open>windowMs\<close>, so the configuration carries the key, the tenant and the
  limit, and the window is \<open>WINDOW_MS\<close>.
\<close>

record RateLimitConfig =
  rl_key :: string
  rl_tenantId :: string
  rl_limit :: int

record RateLimitResult =
  allowed :: bool
  remaining :: int
  resetAt :: nat
  retryAfterSeconds :: nat

text \<open>
  The statement \<open>INSERT ... ON CONFLICT (tenant_id, key, window_start) DO UPDATE SET
  count = rate_limits.count + amount RETURNING count\<close>. Its first argument tells whether the
  store executes it; when it does not, \<open>db.execute\<close> throws, which is the value \<open>None\<close>.
\<close>

definition upsertCounter ::
  "bool \<Rightarrow> string \<times> string \<times> nat \<Rightarrow> int \<Rightarrow> rate_limits \<Rightarrow> (int \<times> rate_limits) option" where
  "upsertCounter storeUp k amount rl =
     (if storeUp then
        let count = (case rl k of None \<Rightarrow> amount | Some c \<Rightarrow> c + amount)
        in Some (count, rl(k \<mapsto> count))
      else None)"

text \<open>\<open>Math.ceil(x / 1000)\<close> on a non-negative integer.\<close>

definition ceilDiv1000 :: "nat \<Rightarrow> nat" where
  "ceilDiv1000 x = (x + 999) div 1000"

definition checkRateLimit ::
  "bool \<Rightarrow> nat \<Rightarrow> RateLimitConfig \<Rightarrow> rate_limits \<Rightarrow> RateLimitResult \<times> rate_limits" where
  "checkRateLimit storeUp now config rl =
     (let windowMs = WINDOW_MS;
          windowStart = now - (now mod windowMs);
          resetAt' = ceilDiv1000 (windowStart + windowMs)
      in case upsertCounter storeUp (rl_tenantId config, rl_key config, windowStart) 1 rl of
           Some (count, rl') \<Rightarrow>
             let allowed' = (count \<le> rl_limit config);
                 remaining' = max 0 (rl_limit config - count);
                 retryAfterSeconds' =
                   (if allowed' then 0 else ceilDiv1000 (resetAt' * 1000 - now))
             in (\<lparr> allowed = allowed', remaining = remaining', resetAt = resetAt',
                    retryAfterSeconds = retryAfterSeconds' \<rparr>, rl')
         | None \<Rightarrow>
             (\<lparr> allowed = True, remaining = rl_limit config, resetAt = resetAt',
                retryAfterSeconds = 0 \<rparr>, rl))"

definition incrementRateLimitKey ::
  "bool \<Rightarrow> nat \<Rightarrow> string \<Rightarrow> string \<Rightarrow> int \<Rightarrow> rate_limits \<Rightarrow> rate_limits" where
  "incrementRateLimitKey storeUp now tenantId key amount rl =
     (let windowStart = now - (now mod WINDOW_MS)
      in case upsertCounter storeUp (tenantId, key, windowStart) amount rl of
           Some (count, rl') \<Rightarrow> rl'
         | None \<Rightarrow> rl)"

section \<open>Claim processor (app/api/v1/referrals/claim)\<close>

definition MAX_EXTERNAL_USER_ID_LENGTH :: nat where
  "MAX_EXTERNAL_USER_ID_LENGTH = 255"

definition MAX_REFERRAL_CODE_LENGTH :: nat where
  "MAX_REFERRAL_CODE_LENGTH = 50"

text \<open>
  The request as the handler reads it: the two address headers, and the body, which is
  \<open>None\<close> when it is not valid JSON.
\<close>

record claim_request =
  rq_xForwardedFor :: "string option"
  rq_xRealIp :: "string option"
  rq_body :: "json option"

record ClaimReferralInput =
  referralCode :: string
  referredUserId :: string

text \<open>
  \<open>claimReferralSchema.safeParse\<close>: the body is an object whose two fields are strings
  of at least one character.
\<close>

definition claimReferralSchema :: "json \<Rightarrow> ClaimReferralInput option" where
  "claimReferralSchema data =
     (case data of
        JObject props \<Rightarrow>
          (case (map_of props ''referralCode'', map_of props ''referredUserId'') of
             (Some (JString code), Some (JString uid)) \<Rightarrow>
               if length code \<ge> 1 \<and> length uid \<ge> 1
               then Some \<lparr> referralCode = code, referredUserId = uid \<rparr>
               else None
           | _ \<Rightarrow> None)
      | _ \<Rightarrow> None)"

definition getClientIp :: "claim_request \<Rightarrow> string" where
  "getClientIp request =
     (case rq_xForwardedFor request of
        Some (c # cs) \<Rightarrow> trim (takeWhile (\<lambda>x. x \<noteq> CHR '','') (c # cs))
      | _ \<Rightarrow>
          (case rq_xRealIp request of
             Some (c # cs) \<Rightarrow> c # cs
           | _ \<Rightarrow> ''unknown''))"

record ReferralView =
  rv_id :: string
  rv_referrerUserId :: string
  rv_referredExternalUserId :: string
  rv_refCodeUsed :: string
  rv_status :: string
  rv_createdAt :: nat

record RewardAmount =
  ra_amount :: rat
  ra_currency :: string

record ClaimReferralResponse =
  cr_referral :: ReferralView
  cr_referrerReward :: "RewardAmount option"
  cr_referredReward :: "RewardAmount option"
  cr_alreadyProcessed :: bool

text \<open>
  A response is its error code, HTTP status and retry-after detail, or its data and HTTP
  status. The message text and the \<open>meta\<close> block (time stamp, request id) are left out.
\<close>

datatype claim_response =
    ErrorResponse string nat "nat option"
  | SuccessResponse ClaimReferralResponse nat

text \<open>
  What the request meets outside its own code: the clock; whether the rate-limit store
  executes each of the four statements sent to it; which of the two statements on the
  invalid-code counter reaches the store first (the increment is started without being
  awaited, the check that follows travels on another pooled connection); the writes that
  other requests commit between this request's reads and its transaction; the identifiers
  the database draws; whether the best-effort enqueue after the commit fails; and
  JavaScript's conversion to a number (\<open>ToNumber\<close>) of a string, an array or an object,
  with \<open>None\<close> for a result that is NaN or infinite.
\<close>

record claim_env =
  ce_now :: nat
  ce_ipStoreUp :: bool
  ce_userStoreUp :: bool
  ce_invalidIncrementStoreUp :: bool
  ce_invalidCheckStoreUp :: bool
  ce_incrementFirst :: bool
  ce_toNumber :: "json \<Rightarrow> rat option"
  ce_concurrent :: "db \<Rightarrow> db"
  ce_newUserId :: string
  ce_newReferralId :: string
  ce_newReferrerLedgerId :: string
  ce_newReferredLedgerId :: string
  ce_newEventId :: string
  ce_newDeliveryId :: string
  ce_enqueueFails :: bool

text \<open>The response of an idempotent replay (lines 156-180 and 368-392).\<close>

definition alreadyProcessedResponse :: "db \<Rightarrow> referral_row \<Rightarrow> claim_response" where
  "alreadyProcessedResponse s existingReferral =
     (let referrerUser = find (\<lambda>u. us_id u = rf_referrerUserId existingReferral) (users s)
      in SuccessResponse
           \<lparr> cr_referral =
               \<lparr> rv_id = rf_id existingReferral,
                 rv_referrerUserId =
                   (case referrerUser of
                      Some u \<Rightarrow>
                        if us_externalUserId u \<noteq> '''' then us_externalUserId u
                        else rf_referrerUserId existingReferral
                    | None \<Rightarrow> rf_referrerUserId existingReferral),
                 rv_referredExternalUserId = rf_referredExternalUserId existingReferral,
                 rv_refCodeUsed = rf_refCodeUsed existingReferral,
                 rv_status = rf_status existingReferral,
                 rv_createdAt = rf_createdAt existingReferral \<rparr>,
             cr_referrerReward = None,
             cr_referredReward = None,
             cr_alreadyProcessed = True \<rparr>
           200)"

datatype tx_result =
    TxAlreadyProcessed referral_row
  | TxCreated referral_row CalculateRewardsOutput string

text \<open>
  \<open>insert(users).values(...).onConflictDoNothing().returning()\<close>: nothing is inserted,
  and nothing returned, when the row collides on (tenant, external user id) or on
  (tenant, referral code).
\<close>

definition userConflict :: "user_row \<Rightarrow> user_row \<Rightarrow> bool" where
  "userConflict new old \<longleftrightarrow>
     us_tenantId old = us_tenantId new
     \<and> (us_externalUserId old = us_externalUserId new \<or> us_referralCode old = us_referralCode new)"

text \<open>
  The transaction (lines 250-366) on the state it sees. The referrer, the tenant and the
  referred user were read before it. It returns its result and the state it commits, or
  the message of the error it throws, in which case nothing is committed.
\<close>

definition claimTransaction ::
  "claim_env \<Rightarrow> string \<Rightarrow> ClaimReferralInput \<Rightarrow> user_row \<Rightarrow> tenant_row option
   \<Rightarrow> user_row option \<Rightarrow> db \<Rightarrow> string + (tx_result \<times> db)" where
  "claimTransaction env tenantId input referrer tenant referredUser0 s =
     (case find (\<lambda>r. rf_tenantId r = tenantId
                    \<and> rf_referredExternalUserId r = referredUserId input) (referrals s) of
        Some doubleCheck \<Rightarrow> Inr (TxAlreadyProcessed doubleCheck, s)
      | None \<Rightarrow>
          let (referredUser, s1) =
                (case referredUser0 of
                   Some u \<Rightarrow> (Some u, s)
                 | None \<Rightarrow>
                     let newUser =
                           \<lparr> us_id = ce_newUserId env,
                             us_tenantId = tenantId,
                             us_externalUserId = referredUserId input,
                             us_email = None,
                             us_plan = ''free'',
                             us_referralCode = ''ref_pending_'' @ take 8 (referredUserId input),
                             us_createdAt = ce_now env,
                             us_updatedAt = ce_now env \<rparr>
                     in if list_ex (userConflict newUser) (users s)
                        then (find (\<lambda>u. us_tenantId u = tenantId
                                       \<and> us_externalUserId u = referredUserId input) (users s), s)
                        else (Some newUser, s\<lparr>users := users s @ [newUser]\<rparr>))
          in case referredUser of
               None \<Rightarrow> Inl ''Failed to create or find referred user''
             | Some referred \<Rightarrow>
                 let newReferral =
                       \<lparr> rf_id = ce_newReferralId env,
                         rf_tenantId = tenantId,
                         rf_referrerUserId = us_id referrer,
                         rf_referredExternalUserId = referredUserId input,
                         rf_referredUserId = Some (us_id referred),
                         rf_refCodeUsed = referralCode input,
                         rf_status = ''completed'',
                         rf_createdAt = ce_now env,
                         rf_completedAt = Some (ce_now env) \<rparr>;
                     s2 = s1\<lparr>referrals := referrals s1 @ [newReferral]\<rparr>;
                     rewardCalc =
                       calculateRewards
                         \<lparr> ci_referralId = rf_id newReferral,
                           ci_referrerUserId = us_id referrer,
                           ci_referrerExternalUserId = us_externalUserId referrer,
                           ci_referrerTier = us_plan referrer,
                           ci_referredUserId = us_id referred,
                           ci_referredExternalUserId = referredUserId input,
                           ci_tenantRewardSettings =
                             (case tenant of
                                None \<Rightarrow> None
                              | Some t \<Rightarrow> tn_referralSettingsJson t) \<rparr>;
                     s3 = insertReward tenantId (ce_newReferrerLedgerId env) (ce_now env)
                            (referrerReward rewardCalc) s2;
                     s4 = insertReward tenantId (ce_newReferredLedgerId env) (ce_now env)
                            (referredReward rewardCalc) s3;
                     s5 = insertEvent (ce_newEventId env) (ce_now env) tenantId
                            ''referral.claimed''
                            (ReferralClaimedPayload (rf_id newReferral)
                               (us_externalUserId referrer) (referredUserId input)
                               (referralCode input)
                               (map_option re_rewardJson (referrerReward rewardCalc))
                               (map_option re_rewardJson (referredReward rewardCalc)))
                            s4
                 in Inr (TxCreated newReferral rewardCalc (ce_newEventId env), s5))"

text \<open>The response of a first-time claim (lines 399-427).\<close>

definition rewardAmountOf :: "RewardEntry \<Rightarrow> RewardAmount" where
  "rewardAmountOf e =
     \<lparr> ra_amount = rj_amount (re_rewardJson e), ra_currency = rj_currency (re_rewardJson e) \<rparr>"

definition createdResponse ::
  "user_row \<Rightarrow> referral_row \<Rightarrow> CalculateRewardsOutput \<Rightarrow> claim_response" where
  "createdResponse referrer referral rewards =
     SuccessResponse
       \<lparr> cr_referral =
           \<lparr> rv_id = rf_id referral,
             rv_referrerUserId = us_externalUserId referrer,
             rv_referredExternalUserId = rf_referredExternalUserId referral,
             rv_refCodeUsed = rf_refCodeUsed referral,
             rv_status = rf_status referral,
             rv_createdAt = rf_createdAt referral \<rparr>,
         cr_referrerReward = map_option rewardAmountOf (referrerReward rewards),
         cr_referredReward = map_option rewardAmountOf (referredReward rewards),
         cr_alreadyProcessed = False \<rparr>
       201"

text \<open>
  The setting \<open>max_referrals_per_referrer\<close> is only cast to a number, so the two tests
  \<open>maxReferralsPerReferrer && maxReferralsPerReferrer > 0\<close> and
  \<open>currentCount >= maxReferralsPerReferrer\<close> act on whatever JSON value is configured,
  through JavaScript's truthiness and its conversion to a number.
\<close>

definition truthy :: "json \<Rightarrow> bool" where
  "truthy v =
     (case v of
        JNull \<Rightarrow> False
      | JBool b \<Rightarrow> b
      | JNumber n \<Rightarrow> n \<noteq> 0
      | JString str \<Rightarrow> str \<noteq> ''''
      | JArray xs \<Rightarrow> True
      | JObject kvs \<Rightarrow> True)"

definition toNumber :: "(json \<Rightarrow> rat option) \<Rightarrow> json \<Rightarrow> rat option" where
  "toNumber convert v =
     (case v of
        JNull \<Rightarrow> Some 0
      | JBool b \<Rightarrow> Some (if b then 1 else 0)
      | JNumber n \<Rightarrow> Some n
      | JString str \<Rightarrow> convert v
      | JArray xs \<Rightarrow> convert v
      | JObject kvs \<Rightarrow> convert v)"

text \<open>
  The cap in force, if any: the numeric value of the setting when the setting is truthy
  and that value is greater than zero.
\<close>

definition maxReferralsPerReferrer ::
  "(json \<Rightarrow> rat option) \<Rightarrow> tenant_row option \<Rightarrow> rat option" where
  "maxReferralsPerReferrer convert tenant =
     (case tenant of
        None \<Rightarrow> None
      | Some t \<Rightarrow>
          (case tn_referralSettingsJson t of
             None \<Rightarrow> None
           | Some referralSettings \<Rightarrow>
               (case map_of referralSettings ''max_referrals_per_referrer'' of
                  None \<Rightarrow> None
                | Some v \<Rightarrow>
                    if truthy v then
                      (case toNumber convert v of
                         Some n \<Rightarrow> if n > 0 then Some n else None
                       | None \<Rightarrow> None)
                    else None)))"

text \<open>
  The post-commit step (lines 394-397): the enqueue is started and not awaited, and its
  rejection is swallowed, so a failing enqueue leaves no delivery row and nothing else.
\<close>

definition enqueueAfterCommit :: "claim_env \<Rightarrow> string \<Rightarrow> string \<Rightarrow> db \<Rightarrow> db" where
  "enqueueAfterCommit env tenantId eventId s =
     (if eventId \<noteq> '''' then
        if ce_enqueueFails env then s
        else snd (enqueueWebhookForExistingEvent (ce_newDeliveryId env) (ce_now env)
                    tenantId eventId s)
      else s)"

text \<open>
  The two statements on the invalid-code counter (lines 185-191), in the order in which
  they reach the store, with the result of the check and the counters they leave.
\<close>

definition invalidCodeAttempt ::
  "claim_env \<Rightarrow> string \<Rightarrow> string \<Rightarrow> rate_limits \<Rightarrow> RateLimitResult \<times> rate_limits" where
  "invalidCodeAttempt env tenantId clientIp rl =
     (let key = ''invalid_ref:ip:'' @ clientIp;
          config = \<lparr> rl_key = key, rl_tenantId = tenantId, rl_limit = INVALID_REF_PER_IP \<rparr>
      in
      if ce_incrementFirst env then
        checkRateLimit (ce_invalidCheckStoreUp env) (ce_now env) config
          (incrementRateLimitKey (ce_invalidIncrementStoreUp env) (ce_now env) tenantId key 1 rl)
      else
        (case checkRateLimit (ce_invalidCheckStoreUp env) (ce_now env) config rl of
           (invalidRefLimit, rl') \<Rightarrow>
             (invalidRefLimit,
              incrementRateLimitKey (ce_invalidIncrementStoreUp env) (ce_now env) tenantId key 1
                rl')))"

text \<open>
  The handler from the per-user rate-limit check on (lines 131-427), for a body that has
  passed validation. It returns the response, or the message of a thrown error, and the
  state it leaves. The increment of the invalid-code counter (line 185) is started without
  being awaited and the check of lines 187-191 is issued right after it, so either
  statement may reach the store first; \<open>ce_incrementFirst\<close> tells which. The state
  returned has both statements applied.
\<close>

definition claimValidated ::
  "claim_env \<Rightarrow> string \<Rightarrow> string \<Rightarrow> ClaimReferralInput \<Rightarrow> db
   \<Rightarrow> (string + claim_response) \<times> db" where
  "claimValidated env tenantId clientIp input s =
     (let (userRateLimit, rl1) =
            checkRateLimit (ce_userStoreUp env) (ce_now env)
              \<lparr> rl_key = ''claim:user:'' @ referredUserId input, rl_tenantId = tenantId,
                rl_limit = CLAIM_PER_USER \<rparr> (rateLimits s);
          s1 = s\<lparr>rateLimits := rl1\<rparr>
      in
      if \<not> allowed userRateLimit then
        (Inr (ErrorResponse ''RATE_LIMITED'' 429 (Some (retryAfterSeconds userRateLimit))), s1)
      else
        case getReferralByReferredExternalUserId s1 tenantId (referredUserId input) of
          Some existingReferral \<Rightarrow> (Inr (alreadyProcessedResponse s1 existingReferral), s1)
        | None \<Rightarrow>
            (case getUserByReferralCode s1 tenantId (referralCode input) of
               None \<Rightarrow>
                 let (invalidRefLimit, rl3) =
                       invalidCodeAttempt env tenantId clientIp (rateLimits s1);
                     s2 = s1\<lparr>rateLimits := rl3\<rparr>
                 in
                 if \<not> allowed invalidRefLimit then
                   (Inr (ErrorResponse ''RATE_LIMITED'' 429
                           (Some (retryAfterSeconds invalidRefLimit))), s2)
                 else (Inr (ErrorResponse ''REFERRAL_CODE_NOT_FOUND'' 404 None), s2)
             | Some referrer \<Rightarrow>
                 if us_externalUserId referrer = referredUserId input then
                   (Inr (ErrorResponse ''SELF_REFERRAL'' 400 None), s1)
                 else
                   let tenant = getTenant s1 tenantId;
                       currentCount = countReferralsByReferrer s1 tenantId (us_id referrer)
                   in
                   case (case maxReferralsPerReferrer (ce_toNumber env) tenant of
                           Some cap \<Rightarrow> if of_nat currentCount \<ge> cap then Some cap else None
                         | None \<Rightarrow> None) of
                     Some cap \<Rightarrow> (Inr (ErrorResponse ''REFERRAL_CAP_REACHED'' 400 None), s1)
                   | None \<Rightarrow>
                       let referredUser =
                             getUserByExternalId s1 tenantId (referredUserId input);
                           sTx = ce_concurrent env s1
                       in
                       (case claimTransaction env tenantId input referrer tenant
                               referredUser sTx of
                          Inl err \<Rightarrow> (Inl err, sTx)
                        | Inr (TxAlreadyProcessed referral, s3) \<Rightarrow>
                            (Inr (alreadyProcessedResponse s3 referral), s3)
                        | Inr (TxCreated referral rewards eventId, s3) \<Rightarrow>
                            (Inr (createdResponse referrer referral rewards),
                             enqueueAfterCommit env tenantId eventId s3))))"

text \<open>
  \<open>handleClaimReferral\<close> (lines 67-129, then \<open>claimValidated\<close>): the per-IP rate-limit
  check, the parsing of the body, the schema, the two length bounds.
\<close>

definition handleClaimReferral ::
  "claim_env \<Rightarrow> string \<Rightarrow> claim_request \<Rightarrow> db \<Rightarrow> (string + claim_response) \<times> db" where
  "handleClaimReferral env tenantId request s =
     (let clientIp = getClientIp request;
          (ipRateLimit, rl1) =
            checkRateLimit (ce_ipStoreUp env) (ce_now env)
              \<lparr> rl_key = ''claim:ip:'' @ clientIp, rl_tenantId = tenantId,
                rl_limit = CLAIM_PER_IP \<rparr> (rateLimits s);
          s1 = s\<lparr>rateLimits := rl1\<rparr>
      in
      if \<not> allowed ipRateLimit then
        (Inr (ErrorResponse ''RATE_LIMITED'' 429 (Some (retryAfterSeconds ipRateLimit))), s1)
      else
        case rq_body request of
          None \<Rightarrow> (Inr (ErrorResponse ''INVALID_REQUEST'' 400 None), s1)
        | Some data \<Rightarrow>
            (case claimReferralSchema data of
               None \<Rightarrow> (Inr (ErrorResponse ''INVALID_REQUEST'' 400 None), s1)
             | Some input \<Rightarrow>
                 if length (referredUserId input) > MAX_EXTERNAL_USER_ID_LENGTH then
                   (Inr (ErrorResponse ''INVALID_REQUEST'' 400 None), s1)
                 else if length (referralCode input) > MAX_REFERRAL_CODE_LENGTH then
                   (Inr (ErrorResponse ''INVALID_REQUEST'' 400 None), s1)
                 else claimValidated env tenantId clientIp input s1))"

text \<open>
  The route, \<open>withAuth("write", handleClaimReferral)\<close>, for a key that is authorised for
  the tenant: an error thrown by the handler becomes the response \<open>INTERNAL\<close>.
\<close>

definition POST_claim :: "claim_env \<Rightarrow> string \<Rightarrow> claim_request \<Rightarrow> db \<Rightarrow> claim_response \<times> db" where
  "POST_claim env tenantId request s =
     (case handleClaimReferral env tenantId request s of
        (Inl err, s') \<Rightarrow> (ErrorResponse ''INTERNAL'' 500 None, s')
      | (Inr response, s') \<Rightarrow> (response, s'))"

section \<open>Vocabulary of the properties\<close>

text \<open>
  The counter a key has in the window of \<open>now\<close>, and the condition under which
  \<open>checkRateLimit\<close> lets a request pass: the store does not answer, or the counter stays
  within the limit after this request is counted.
\<close>

definition counterOf :: "rate_limits \<Rightarrow> string \<Rightarrow> string \<Rightarrow> nat \<Rightarrow> int" where
  "counterOf rl tenantId key now =
     (case rl (tenantId, key, now - (now mod WINDOW_MS)) of None \<Rightarrow> 0 | Some c \<Rightarrow> c)"

definition admits :: "bool \<Rightarrow> rate_limits \<Rightarrow> string \<Rightarrow> string \<Rightarrow> nat \<Rightarrow> int \<Rightarrow> bool" where
  "admits storeUp rl tenantId key now limit \<longleftrightarrow>
     (if storeUp then counterOf rl tenantId key now + 1 \<le> limit else True)"

text \<open>The input of a request that passes the body checks of lines 94-129, if it does.\<close>

definition validatedInput :: "claim_request \<Rightarrow> ClaimReferralInput option" where
  "validatedInput request =
     (case rq_body request of
        None \<Rightarrow> None
      | Some data \<Rightarrow>
          (case claimReferralSchema data of
             None \<Rightarrow> None
           | Some input \<Rightarrow>
               if length (referredUserId input) > MAX_EXTERNAL_USER_ID_LENGTH then None
               else if length (referralCode input) > MAX_REFERRAL_CODE_LENGTH then None
               else Some input))"

text \<open>The tables other than the rate-limit counters and the delivery queue.\<close>

definition coreTables ::
  "db \<Rightarrow> tenant_row list \<times> user_row list \<times> referral_row list \<times> ledger_row list \<times> event_row list" where
  "coreTables s = (tenants s, users s, referrals s, rewardsLedger s, events s)"

text \<open>The state a request leaves when it ends at or right after the per-IP check.\<close>

definition afterIpCheck :: "claim_env \<Rightarrow> string \<Rightarrow> claim_request \<Rightarrow> db \<Rightarrow> db" where
  "afterIpCheck env tenantId request s =
     s\<lparr>rateLimits :=
         snd (checkRateLimit (ce_ipStoreUp env) (ce_now env)
                \<lparr> rl_key = ''claim:ip:'' @ getClientIp request, rl_tenantId = tenantId,
                  rl_limit = CLAIM_PER_IP \<rparr> (rateLimits s))\<rparr>"

text \<open>The state a validated request leaves when it ends at or right after the per-user check.\<close>

definition afterUserCheck :: "claim_env \<Rightarrow> string \<Rightarrow> ClaimReferralInput \<Rightarrow> db \<Rightarrow> db" where
  "afterUserCheck env tenantId input s =
     s\<lparr>rateLimits :=
         snd (checkRateLimit (ce_userStoreUp env) (ce_now env)
                \<lparr> rl_key = ''claim:user:'' @ referredUserId input, rl_tenantId = tenantId,
                  rl_limit = CLAIM_PER_USER \<rparr> (rateLimits s))\<rparr>"

section \<open>Example states\<close>

text \<open>
  The scenario of the specification: tenant \<open>t1\<close> grants 200 units to pro-tier referrers
  and nothing to referred users; the referrer \<open>u1\<close> is on the pro tier and owns the code
  \<open>REF123\<close>; the user \<open>u2\<close> claims it from the address 10.0.0.1 at time 1000000.
\<close>

definition ex_tenant :: tenant_row where
  "ex_tenant =
     \<lparr> tn_id = ''t1'',
       tn_referralSettingsJson =
         Some [(''referral_reward_pro'', JNumber 200), (''onboarding_bonus'', JNumber 0)],
       tn_webhookUrl = Some ''https://hooks.example/in'' \<rparr>"

definition ex_referrer :: user_row where
  "ex_referrer =
     \<lparr> us_id = ''U1'', us_tenantId = ''t1'', us_externalUserId = ''u1'', us_email = None,
       us_plan = ''pro'', us_referralCode = ''REF123'', us_createdAt = 1000, us_updatedAt = 1000 \<rparr>"

definition ex_db :: db where
  "ex_db =
     \<lparr> tenants = [ex_tenant], users = [ex_referrer], referrals = [], rewardsLedger = [],
       events = [], webhookDeliveries = [], rateLimits = Map.empty \<rparr>"

text \<open>
  In the environment of the examples the increment reaches the store before the check; no
  setting of the examples is a string, an array or an object, so its conversion to a
  number is never consulted.
\<close>

definition ex_env :: claim_env where
  "ex_env =
     \<lparr> ce_now = 1000000,
       ce_ipStoreUp = True, ce_userStoreUp = True,
       ce_invalidIncrementStoreUp = True, ce_invalidCheckStoreUp = True,
       ce_incrementFirst = True,
       ce_toNumber = (\<lambda>v. None),
       ce_concurrent = (\<lambda>s. s),
       ce_newUserId = ''U2'', ce_newReferralId = ''R1'',
       ce_newReferrerLedgerId = ''L1'', ce_newReferredLedgerId = ''L2'',
       ce_newEventId = ''E1'', ce_newDeliveryId = ''D1'',
       ce_enqueueFails = False \<rparr>"

definition ex_request :: "string \<Rightarrow> string \<Rightarrow> claim_request" where
  "ex_request code uid =
     \<lparr> rq_xForwardedFor = None, rq_xRealIp = Some ''10.0.0.1'',
       rq_body = Some (JObject [(''referralCode'', JString code),
                                (''referredUserId'', JString uid)]) \<rparr>"

text \<open>The referral that the first claim of the scenario writes.\<close>

definition ex_referral :: referral_row where
  "ex_referral =
     \<lparr> rf_id = ''R1'', rf_tenantId = ''t1'', rf_referrerUserId = ''U1'',
       rf_referredExternalUserId = ''u2'', rf_referredUserId = Some ''U2'',
       rf_refCodeUsed = ''REF123'', rf_status = ''completed'', rf_createdAt = 1000000,
       rf_completedAt = Some 1000000 \<rparr>"

text \<open>
  A state in which that referral exists; in \<open>ex_db_user_limited\<close> the referred user has
  moreover used up the ten claims of the current window, and in \<open>ex_db_ip_limited\<close> the
  address has used up its twenty.
\<close>

definition ex_db_claimed :: db where
  "ex_db_claimed = ex_db\<lparr>referrals := [ex_referral]\<rparr>"

definition ex_db_user_limited :: db where
  "ex_db_user_limited =
     ex_db_claimed\<lparr>rateLimits := [(''t1'', ''claim:user:u2'', 960000) \<mapsto> 10]\<rparr>"

definition ex_db_ip_limited :: db where
  "ex_db_ip_limited =
     ex_db\<lparr>rateLimits := [(''t1'', ''claim:ip:10.0.0.1'', 960000) \<mapsto> 20]\<rparr>"

text \<open>
  A state in which the counter of unknown codes of the address stands at 6, above its
  limit of 5.
\<close>

definition ex_db_invalid_attempts :: db where
  "ex_db_invalid_attempts =
     ex_db\<lparr>rateLimits := [(''t1'', ''invalid_ref:ip:10.0.0.1'', 960000) \<mapsto> 6]\<rparr>"

text \<open>The rows the first claim of the scenario adds, and the state it leaves.\<close>

definition ex_referred_user :: user_row where
  "ex_referred_user =
     \<lparr> us_id = ''U2'', us_tenantId = ''t1'', us_externalUserId = ''u2'', us_email = None,
       us_plan = ''free'', us_referralCode = ''ref_pending_u2'', us_createdAt = 1000000,
       us_updatedAt = 1000000 \<rparr>"

definition ex_reward_json :: RewardJson where
  "ex_reward_json =
     \<lparr> rj_type = ''credit'', rj_amount = 200, rj_currency = ''AUD'',
       rj_description = ''Referral reward for referring u2'', rj_referralId = Some ''R1'',
       rj_referrerTier = Some ''pro'', rj_referredExternalUserId = Some ''u2'',
       rj_referrerExternalUserId = None \<rparr>"

definition ex_ledger_entry :: ledger_row where
  "ex_ledger_entry =
     \<lparr> lg_id = ''L1'', lg_tenantId = ''t1'', lg_userId = ''U1'',
       lg_source = ''referral_reward'', lg_eventId = ''ref_reward_R1_U1'',
       lg_rewardJson = ex_reward_json, lg_createdAt = 1000000 \<rparr>"

definition ex_claim_event :: event_row where
  "ex_claim_event =
     \<lparr> ev_id = ''E1'', ev_tenantId = ''t1'', ev_type = ''referral.claimed'',
       ev_payloadJson =
         ReferralClaimedPayload ''R1'' ''u1'' ''u2'' ''REF123'' (Some ex_reward_json) None,
       ev_createdAt = 1000000 \<rparr>"

definition ex_first_delivery :: delivery_row where
  "ex_first_delivery =
     \<lparr> wd_id = ''D1'', wd_tenantId = ''t1'', wd_eventId = ''E1'',
       wd_url = ''https://hooks.example/in'', wd_status = ''pending'', wd_attemptCount = 0,
       wd_lastAttemptAt = None, wd_nextAttemptAt = Some 1000000, wd_lastError = None,
       wd_createdAt = 1000000, wd_updatedAt = 1000000 \<rparr>"

definition ex_db_after :: db where
  "ex_db_after =
     \<lparr> tenants = [ex_tenant],
       users = [ex_referrer, ex_referred_user],
       referrals = [ex_referral],
       rewardsLedger = [ex_ledger_entry],
       events = [ex_claim_event],
       webhookDeliveries = [ex_first_delivery],
       rateLimits = [(''t1'', ''claim:ip:10.0.0.1'', 960000) \<mapsto> 1,
                     (''t1'', ''claim:user:u2'', 960000) \<mapsto> 1] \<rparr>"

text \<open>The input the transaction of the scenario hands to the evaluator.\<close>

definition ex_calc_input :: CalculateRewardsInput where
  "ex_calc_input =
     \<lparr> ci_referralId = ''R1'', ci_referrerUserId = ''U1'', ci_referrerExternalUserId = ''u1'',
       ci_referrerTier = ''pro'', ci_referredUserId = ''U2'', ci_referredExternalUserId = ''u2'',
       ci_tenantRewardSettings = tn_referralSettingsJson ex_tenant \<rparr>"

text \<open>A second grant under the idempotency key of the first, with another amount.\<close>

definition ex_duplicate_entry :: ledger_row where
  "ex_duplicate_entry =
     ex_ledger_entry\<lparr> lg_id := ''L9'', lg_rewardJson := ex_reward_json\<lparr>rj_amount := 500\<rparr>,
                      lg_createdAt := 3000000 \<rparr>"

text \<open>A request whose referral code is one character longer than the bound.\<close>

definition ex_long_request :: claim_request where
  "ex_long_request = ex_request (replicate 51 (CHR ''x'')) ''u2''"

text \<open>The environment of the scenario with the rate-limit store down.\<close>

definition ex_env_down :: claim_env where
  "ex_env_down =
     ex_env\<lparr> ce_ipStoreUp := False, ce_userStoreUp := False,
              ce_invalidIncrementStoreUp := False, ce_invalidCheckStoreUp := False \<rparr>"

text \<open>
  The dispatcher's examples: the delivery of the scenario after five failed attempts, a
  destination that answers 503, and a delivery whose event is not in the log.
\<close>

definition ex_worker_config :: worker_config where
  "ex_worker_config = defaultWorkerConfig ''s3cret''"

definition ex_worker_env :: worker_env where
  "ex_worker_env =
     \<lparr> we_now = 2000000, we_fetch = (\<lambda>request. HttpResponse 503 ''unavailable''),
       we_newEventId = ''E2'' \<rparr>"

definition ex_tired_delivery :: delivery_row where
  "ex_tired_delivery =
     ex_first_delivery\<lparr> wd_attemptCount := 5, wd_lastAttemptAt := Some 1900000,
                        wd_nextAttemptAt := Some 2000000,
                        wd_lastError := Some ''HTTP 503: unavailable'',
                        wd_updatedAt := 1900000 \<rparr>"

definition ex_queue_db :: db where
  "ex_queue_db = ex_db_after\<lparr>webhookDeliveries := [ex_tired_delivery]\<rparr>"

definition ex_orphan_delivery :: delivery_row where
  "ex_orphan_delivery = ex_first_delivery\<lparr> wd_id := ''D2'', wd_eventId := ''E404'' \<rparr>"

definition ex_orphan_db :: db where
  "ex_orphan_db = ex_db_after\<lparr>webhookDeliveries := [ex_orphan_delivery]\<rparr>"

text \<open>A tenant without a destination, and a replay environment.\<close>

definition ex_db_no_webhook :: db where
  "ex_db_no_webhook = ex_db_after\<lparr>tenants := [ex_tenant\<lparr>tn_webhookUrl := None\<rparr>]\<rparr>"

definition ex_replay_env :: replay_env where
  "ex_replay_env = \<lparr> rpe_now = 5000000, rpe_newDeliveryId = ''D7'' \<rparr>"

section \<open>Reward rule evaluator: properties\<close>

lemma numberOr_spec: "numberOr (map_of obj f) d = spec_ruleNumber (Some obj) f d"
  by (simp add: numberOr_def spec_ruleNumber_def split: option.splits json.splits)

lemma amount_spec:
  "getRewardAmountForTier (normalizeRewardRules rules) tier = spec_tierAmount rules tier"
  by (cases tier; cases rules)
     (simp_all add: normalizeRewardRules_def DEFAULT_REWARD_RULES_def spec_tierAmount_def
        numberOr_spec, simp_all add: spec_ruleNumber_def)

lemma bonus_spec:
  "onboarding_bonus (normalizeRewardRules rules) = spec_ruleNumber rules ''onboarding_bonus'' 0"
  by (cases rules)
     (simp_all add: normalizeRewardRules_def DEFAULT_REWARD_RULES_def numberOr_spec,
      simp_all add: spec_ruleNumber_def)

lemma currency_spec: "currency (normalizeRewardRules rules) = spec_currency rules"
  by (cases rules)
     (simp_all add: normalizeRewardRules_def DEFAULT_REWARD_RULES_def spec_currency_def
        split: option.splits json.splits)

lemma tier_spec:
  "normalizeSubscriptionTier (Some t) =
     (case spec_knownTier t of Some tier \<Rightarrow> tier | None \<Rightarrow> Free)"
  by (simp add: normalizeSubscriptionTier_def spec_knownTier_def Let_def trim_def toLowerCase_def)

text \<open>
  Claim C4. The reward evaluator agrees with its reference definition. The referrer's
  grant is the amount configured for the referrer's normalised tier, the lowest tier's
  amount standing in when the tier is unknown or missing; the referred user's grant is
  the onboarding bonus; a rule field that is missing or not a number takes its default
  (100, 200, 300 for the tiers, 0 for the bonus); a missing or empty currency is AUD; and
  a side whose amount is zero or negative yields no reward entry, hence no ledger row.
\<close>

theorem calculateRewards_refines_reference:
  "(case spec_evaluate (ci_tenantRewardSettings input) (ci_referrerTier input) of
      (referrerAmount, referredAmount, cur) \<Rightarrow>
        map_option grantOf (referrerReward (calculateRewards input)) = spec_grant referrerAmount cur
      \<and> map_option grantOf (referredReward (calculateRewards input)) = spec_grant referredAmount cur
      \<and> (referrerAmount \<le> 0 \<longrightarrow>
            insertReward tenantId newId now (referrerReward (calculateRewards input)) s = s)
      \<and> (referredAmount \<le> 0 \<longrightarrow>
            insertReward tenantId newId now (referredReward (calculateRewards input)) s = s))"
  by (auto simp: calculateRewards_def calculateReferrerReward_def calculateReferredReward_def
      Let_def spec_evaluate_def spec_grant_def grantOf_def amount_spec bonus_spec currency_spec
      tier_spec insertReward_def split: option.splits)

theorem calculateRewards_refines_reference_witness:
  "map_option grantOf (referrerReward (calculateRewards ex_calc_input)) = Some (200, ''AUD'')
   \<and> map_option grantOf (referredReward (calculateRewards ex_calc_input)) = None
   \<and> insertReward ''t1'' ''L2'' 1000000 (referredReward (calculateRewards ex_calc_input)) ex_db
       = ex_db
   \<and> insertReward ''t1'' ''L1'' 1000000
         (referrerReward (calculateRewards
            (ex_calc_input\<lparr>ci_tenantRewardSettings :=
                Some [(''referral_reward_pro'', JNumber (- 5))]\<rparr>))) ex_db
       = ex_db"
proof -
  let ?negative = "ex_calc_input\<lparr>ci_tenantRewardSettings :=
                     Some [(''referral_reward_pro'', JNumber (- 5))]\<rparr>"
  have configured:
    "spec_evaluate (ci_tenantRewardSettings ex_calc_input) (ci_referrerTier ex_calc_input)
       = (200, 0, ''AUD'')"
    by (simp add: ex_calc_input_def ex_tenant_def spec_evaluate_def spec_knownTier_def
        spec_tierAmount_def spec_ruleNumber_def spec_currency_def
        trim_def toLowerCase_def lowerChar_def isWhiteSpace_def)
  have negative:
    "spec_evaluate (ci_tenantRewardSettings ?negative) (ci_referrerTier ?negative)
       = (- 5, 0, ''AUD'')"
    by (simp add: ex_calc_input_def spec_evaluate_def spec_knownTier_def
        spec_tierAmount_def spec_ruleNumber_def spec_currency_def
        trim_def toLowerCase_def lowerChar_def isWhiteSpace_def)
  have a: "map_option grantOf (referrerReward (calculateRewards ex_calc_input))
              = Some (200, ''AUD'')
      \<and> map_option grantOf (referredReward (calculateRewards ex_calc_input)) = None
      \<and> insertReward ''t1'' ''L2'' 1000000 (referredReward (calculateRewards ex_calc_input))
            ex_db = ex_db"
    using calculateRewards_refines_reference [of ex_calc_input "''t1''" "''L2''" 1000000 ex_db]
    unfolding configured by (simp add: spec_grant_def insertReward_def)
  have b: "insertReward ''t1'' ''L1'' 1000000 (referrerReward (calculateRewards ?negative)) ex_db
             = ex_db"
    using calculateRewards_refines_reference [of ?negative "''t1''" "''L1''" 1000000 ex_db]
    unfolding negative by (simp add: insertReward_def)
  from a b show ?thesis by blast
qed

section \<open>Reward ledger: properties\<close>

lemma insertLedger_conflict_noop:
  "list_ex (ledgerConflict row) (rewardsLedger s) \<Longrightarrow> insertLedgerOnConflictDoNothing row s = s"
  by (simp add: insertLedgerOnConflictDoNothing_def)

lemma insertLedger_has_conflict:
  "ledgerConflict row' row \<Longrightarrow>
   list_ex (ledgerConflict row') (rewardsLedger (insertLedgerOnConflictDoNothing row s))"
  by (auto simp: insertLedgerOnConflictDoNothing_def list_ex_iff ledgerConflict_def)

text \<open>
  Claim C2. Inserting a ledger entry whose (tenant, event id, user) triple is already in
  the ledger is a no-op: no row is added and no per-user total of \<open>sumRewardsByUser\<close>
  changes. In particular the second of two inserts under one idempotency key changes
  nothing.
\<close>

theorem ledger_insert_idempotent:
  "(old \<in> set (rewardsLedger s) \<and> lg_tenantId old = lg_tenantId new
      \<and> lg_eventId old = lg_eventId new \<and> lg_userId old = lg_userId new
    \<longrightarrow> insertLedgerOnConflictDoNothing new s = s
        \<and> rewardsLedger (insertLedgerOnConflictDoNothing new s) = rewardsLedger s
        \<and> sumRewardsByUser (insertLedgerOnConflictDoNothing new s) tenantId userId
            = sumRewardsByUser s tenantId userId)
   \<and> (lg_tenantId second = lg_tenantId first \<and> lg_eventId second = lg_eventId first
        \<and> lg_userId second = lg_userId first
    \<longrightarrow> insertLedgerOnConflictDoNothing second (insertLedgerOnConflictDoNothing first s)
          = insertLedgerOnConflictDoNothing first s
        \<and> sumRewardsByUser
            (insertLedgerOnConflictDoNothing second (insertLedgerOnConflictDoNothing first s))
            tenantId userId
            = sumRewardsByUser (insertLedgerOnConflictDoNothing first s) tenantId userId)"
proof (intro conjI impI)
  assume a: "old \<in> set (rewardsLedger s) \<and> lg_tenantId old = lg_tenantId new
      \<and> lg_eventId old = lg_eventId new \<and> lg_userId old = lg_userId new"
  then have "list_ex (ledgerConflict new) (rewardsLedger s)"
    by (auto simp: list_ex_iff ledgerConflict_def)
  then have eq: "insertLedgerOnConflictDoNothing new s = s"
    by (rule insertLedger_conflict_noop)
  show "insertLedgerOnConflictDoNothing new s = s" by (rule eq)
  show "rewardsLedger (insertLedgerOnConflictDoNothing new s) = rewardsLedger s"
    by (simp add: eq)
  show "sumRewardsByUser (insertLedgerOnConflictDoNothing new s) tenantId userId
            = sumRewardsByUser s tenantId userId"
    by (simp add: eq)
next
  assume b: "lg_tenantId second = lg_tenantId first \<and> lg_eventId second = lg_eventId first
        \<and> lg_userId second = lg_userId first"
  then have "ledgerConflict second first" by (simp add: ledgerConflict_def)
  then have "list_ex (ledgerConflict second)
               (rewardsLedger (insertLedgerOnConflictDoNothing first s))"
    by (rule insertLedger_has_conflict)
  then have eq: "insertLedgerOnConflictDoNothing second (insertLedgerOnConflictDoNothing first s)
          = insertLedgerOnConflictDoNothing first s"
    by (rule insertLedger_conflict_noop)
  show "insertLedgerOnConflictDoNothing second (insertLedgerOnConflictDoNothing first s)
          = insertLedgerOnConflictDoNothing first s" by (rule eq)
  show "sumRewardsByUser
            (insertLedgerOnConflictDoNothing second (insertLedgerOnConflictDoNothing first s))
            tenantId userId
            = sumRewardsByUser (insertLedgerOnConflictDoNothing first s) tenantId userId"
    by (simp add: eq)
qed

theorem ledger_insert_idempotent_witness:
  "insertLedgerOnConflictDoNothing ex_duplicate_entry ex_db_after = ex_db_after
   \<and> sumRewardsByUser (insertLedgerOnConflictDoNothing ex_duplicate_entry ex_db_after)
         ''t1'' ''U1''
       = sumRewardsByUser ex_db_after ''t1'' ''U1''
   \<and> insertLedgerOnConflictDoNothing ex_duplicate_entry
         (insertLedgerOnConflictDoNothing ex_ledger_entry ex_db)
       = insertLedgerOnConflictDoNothing ex_ledger_entry ex_db"
  using ledger_insert_idempotent [where old = ex_ledger_entry and s = ex_db_after
      and new = ex_duplicate_entry and tenantId = "''t1''" and userId = "''U1''"
      and second = ex_duplicate_entry and first = ex_ledger_entry]
    ledger_insert_idempotent [where s = ex_db
      and second = ex_duplicate_entry and first = ex_ledger_entry]
  by (simp add: ex_db_after_def ex_duplicate_entry_def ex_ledger_entry_def)

section \<open>Webhook dispatcher: properties\<close>

lemma getNextAttemptDelay_table:
  "getNextAttemptDelay n = [0, 10000, 60000, 300000, 1800000, 7200000] ! min n 5"
proof (cases "n \<ge> 6")
  case True
  then show ?thesis by (simp add: getNextAttemptDelay_def RETRY_DELAYS_MS_def min_def)
next
  case False
  then show ?thesis by (simp add: getNextAttemptDelay_def RETRY_DELAYS_MS_def min_def)
qed

lemma attemptResult_failure:
  "(case outcome of HttpResponse st body \<Rightarrow> st < 200 \<or> 299 < st | _ \<Rightarrow> True) \<Longrightarrow>
   \<exists>code err. attemptResult cfg outcome = (code, err, False)"
  by (cases outcome) (auto simp: attemptResult_def)

lemma fetchDue_sound:
  "r \<in> set (fetchDueDeliveries cfg t s) \<Longrightarrow>
   \<exists>d \<in> set (webhookDeliveries s). r = toDeliveryRecord d \<and> isDue t d"
proof -
  assume "r \<in> set (fetchDueDeliveries cfg t s)"
  then obtain d where d: "d \<in> set (take (BATCH_SIZE cfg) (filter (isDue t) (webhookDeliveries s)))"
    and r: "r = toDeliveryRecord d"
    by (auto simp: fetchDueDeliveries_def)
  from d have "d \<in> set (filter (isDue t) (webhookDeliveries s))" by (rule in_set_takeD)
  with r show ?thesis by auto
qed

lemma updateDelivery_set:
  "r \<in> set (updateDelivery i f ds) \<Longrightarrow>
   (\<exists>d \<in> set ds. wd_id d = i \<and> r = f d) \<or> (r \<in> set ds \<and> wd_id r \<noteq> i)"
  by (auto simp: updateDelivery_def)

lemma updateDelivery_mem:
  "d \<in> set ds \<Longrightarrow> wd_id d = i \<Longrightarrow> f d \<in> set (updateDelivery i f ds)"
  by (auto simp: updateDelivery_def)

lemma processDelivery_failure_eq:
  assumes ev: "find (\<lambda>e. ev_tenantId e = dr_tenantId delivery \<and> ev_id e = dr_eventId delivery)
                 (events s) = Some event"
    and sec: "WEBHOOK_SIGNING_SECRET cfg = Some secret" "secret \<noteq> ''''"
    and res: "attemptResult cfg (we_fetch env \<lparr> hr_url = dr_url delivery, hr_event = event \<rparr>)
                = (code, err, False)"
  shows "processDelivery cfg env delivery s =
     Inr (insertEvent (we_newEventId env) (we_now env) (dr_tenantId delivery)
            (if dr_attemptCount delivery + 1 \<ge> WEBHOOK_RETRY_LIMIT cfg
             then ''webhook.exhausted'' else ''webhook.failed'')
            (WebhookFailedPayload (dr_id delivery) (dr_eventId delivery) code
               (dr_attemptCount delivery + 1) err (dr_url delivery))
            (s\<lparr>webhookDeliveries :=
                 updateDelivery (dr_id delivery)
                   (\<lambda>d. d\<lparr> wd_status :=
                             (if dr_attemptCount delivery + 1 \<ge> WEBHOOK_RETRY_LIMIT cfg
                              then ''failed'' else ''pending''),
                           wd_attemptCount := dr_attemptCount delivery + 1,
                           wd_lastAttemptAt := Some (we_now env),
                           wd_lastError := err,
                           wd_nextAttemptAt :=
                             (if dr_attemptCount delivery + 1 \<ge> WEBHOOK_RETRY_LIMIT cfg
                              then None
                              else Some (we_now env
                                         + getNextAttemptDelay (dr_attemptCount delivery + 1))),
                           wd_updatedAt := we_now env \<rparr>)
                   (webhookDeliveries s)\<rparr>),
          [\<lparr> hr_url = dr_url delivery, hr_event = event \<rparr>])"
  using ev sec res by (simp add: processDelivery_def Let_def)

lemma isDue_pending:
  "isDue t x \<Longrightarrow> wd_status x = ''pending'' \<and> (\<exists>u. wd_nextAttemptAt x = Some u \<and> u \<le> t)"
  by (auto simp: isDue_def split: option.splits)

text \<open>
  Claim C3. When the attempt for a queued delivery fails (a response outside 200-299, a
  timeout, a network error), the dispatcher sets the attempt count to one more. Below the
  retry limit the row stays pending with its next attempt at now plus the delay of the new
  count, read from the table 0, 10 s, 60 s, 5 min, 30 min, 2 h that holds at its last
  value, and a \<open>webhook.failed\<close> event is appended. At the limit the row becomes
  failed with no next attempt, a \<open>webhook.exhausted\<close> event is appended, and no later
  poll selects the row: the poller selects only pending rows that are due.
\<close>

theorem processDelivery_failed_attempt:
  assumes row: "d \<in> set (webhookDeliveries s)"
    and ev: "find (\<lambda>e. ev_tenantId e = wd_tenantId d \<and> ev_id e = wd_eventId d) (events s)
               = Some event"
    and sec: "WEBHOOK_SIGNING_SECRET cfg = Some secret" "secret \<noteq> ''''"
    and fail: "case we_fetch env \<lparr> hr_url = wd_url d, hr_event = event \<rparr> of
                 HttpResponse st body \<Rightarrow> st < 200 \<or> 299 < st
               | _ \<Rightarrow> True"
  shows "\<exists>s' e.
      processDelivery cfg env (toDeliveryRecord d) s
        = Inr (s', [\<lparr> hr_url = wd_url d, hr_event = event \<rparr>])
    \<and> events s' = events s @ [e]
    \<and> (\<exists>r \<in> set (webhookDeliveries s'). wd_id r = wd_id d)
    \<and> (\<forall>r \<in> set (webhookDeliveries s'). wd_id r = wd_id d \<longrightarrow>
          wd_attemptCount r = wd_attemptCount d + 1
        \<and> (if wd_attemptCount d + 1 < WEBHOOK_RETRY_LIMIT cfg
           then wd_status r = ''pending''
              \<and> wd_nextAttemptAt r =
                  Some (we_now env
                        + [0, 10000, 60000, 300000, 1800000, 7200000]
                            ! min (wd_attemptCount d + 1) 5)
              \<and> ev_type e = ''webhook.failed''
           else wd_status r = ''failed''
              \<and> wd_nextAttemptAt r = None
              \<and> ev_type e = ''webhook.exhausted''
              \<and> (\<forall>t. \<forall>q \<in> set (fetchDueDeliveries cfg t s'). dr_id q \<noteq> wd_id d)))
    \<and> (\<forall>t. \<forall>q \<in> set (fetchDueDeliveries cfg t s').
          \<exists>x \<in> set (webhookDeliveries s').
            q = toDeliveryRecord x \<and> wd_status x = ''pending''
            \<and> (\<exists>u. wd_nextAttemptAt x = Some u \<and> u \<le> t))"
proof -
  let ?n = "wd_attemptCount d + 1"
  let ?ex = "?n \<ge> WEBHOOK_RETRY_LIMIT cfg"
  let ?req = "\<lparr> hr_url = wd_url d, hr_event = event \<rparr>"
  let ?f = "\<lambda>code err x. x\<lparr> wd_status := (if ?ex then ''failed'' else ''pending''),
                  wd_attemptCount := ?n,
                  wd_lastAttemptAt := Some (we_now env),
                  wd_lastError := err,
                  wd_nextAttemptAt :=
                    (if ?ex then None else Some (we_now env + getNextAttemptDelay ?n)),
                  wd_updatedAt := we_now env \<rparr>"
  from fail obtain code err where res: "attemptResult cfg (we_fetch env ?req) = (code, err, False)"
    using attemptResult_failure by blast
  let ?e = "\<lparr> ev_id = we_newEventId env, ev_tenantId = wd_tenantId d,
             ev_type = (if ?ex then ''webhook.exhausted'' else ''webhook.failed''),
             ev_payloadJson = WebhookFailedPayload (wd_id d) (wd_eventId d) code ?n err (wd_url d),
             ev_createdAt = we_now env \<rparr>"
  let ?ds = "updateDelivery (wd_id d) (?f code err) (webhookDeliveries s)"
  let ?s' = "s\<lparr>webhookDeliveries := ?ds, events := events s @ [?e]\<rparr>"
  have run: "processDelivery cfg env (toDeliveryRecord d) s = Inr (?s', [?req])"
    using processDelivery_failure_eq [of "toDeliveryRecord d" s event cfg secret env code err]
      ev sec res
    by (simp add: toDeliveryRecord_def insertEvent_def)
  have evs: "events ?s' = events s @ [?e]" by simp
  have ds: "webhookDeliveries ?s' = ?ds" by simp
  have ex: "\<exists>r \<in> set ?ds. wd_id r = wd_id d"
    using updateDelivery_mem [OF row refl, of "?f code err"] by (intro bexI [of _ "?f code err d"]) simp_all
  have upd: "wd_attemptCount r = ?n
      \<and> wd_status r = (if ?ex then ''failed'' else ''pending'')
      \<and> wd_nextAttemptAt r = (if ?ex then None else Some (we_now env + getNextAttemptDelay ?n))"
    if "r \<in> set ?ds" "wd_id r = wd_id d" for r
    using updateDelivery_set [OF that(1)] that(2) by auto
  have sel: "\<exists>x \<in> set ?ds. q = toDeliveryRecord x \<and> wd_status x = ''pending''
            \<and> (\<exists>u. wd_nextAttemptAt x = Some u \<and> u \<le> t)"
    if "q \<in> set (fetchDueDeliveries cfg t ?s')" for t q
    using fetchDue_sound [OF that] isDue_pending by (simp only: ds) blast
  have never: "dr_id q \<noteq> wd_id d" if "?ex" "q \<in> set (fetchDueDeliveries cfg t ?s')" for t q
  proof
    assume same: "dr_id q = wd_id d"
    from sel [OF that(2)] obtain x where x: "x \<in> set ?ds" "q = toDeliveryRecord x"
      "wd_status x = ''pending''" by blast
    from x(2) same have "wd_id x = wd_id d" by (simp add: toDeliveryRecord_def)
    from upd [OF x(1) this] that(1) have "wd_status x = ''failed''" by simp
    with x(3) show False by simp
  qed
  have rows: "\<forall>r \<in> set (webhookDeliveries ?s'). wd_id r = wd_id d \<longrightarrow>
          wd_attemptCount r = ?n
        \<and> (if ?n < WEBHOOK_RETRY_LIMIT cfg
           then wd_status r = ''pending''
              \<and> wd_nextAttemptAt r =
                  Some (we_now env + [0, 10000, 60000, 300000, 1800000, 7200000] ! min ?n 5)
              \<and> ev_type ?e = ''webhook.failed''
           else wd_status r = ''failed''
              \<and> wd_nextAttemptAt r = None
              \<and> ev_type ?e = ''webhook.exhausted''
              \<and> (\<forall>t. \<forall>q \<in> set (fetchDueDeliveries cfg t ?s'). dr_id q \<noteq> wd_id d))"
  proof (intro ballI impI)
    fix r assume r: "r \<in> set (webhookDeliveries ?s')" "wd_id r = wd_id d"
    then have "r \<in> set ?ds" by simp
    note u = upd [OF this r(2)]
    show "wd_attemptCount r = ?n
        \<and> (if ?n < WEBHOOK_RETRY_LIMIT cfg
           then wd_status r = ''pending''
              \<and> wd_nextAttemptAt r =
                  Some (we_now env + [0, 10000, 60000, 300000, 1800000, 7200000] ! min ?n 5)
              \<and> ev_type ?e = ''webhook.failed''
           else wd_status r = ''failed''
              \<and> wd_nextAttemptAt r = None
              \<and> ev_type ?e = ''webhook.exhausted''
              \<and> (\<forall>t. \<forall>q \<in> set (fetchDueDeliveries cfg t ?s'). dr_id q \<noteq> wd_id d))"
    proof (cases "?n < WEBHOOK_RETRY_LIMIT cfg")
      case True
      then have "\<not> ?ex" by simp
      with u True show ?thesis by (simp add: getNextAttemptDelay_table)
    next
      case False
      then have e: "?ex" by simp
      with never have "\<forall>t. \<forall>q \<in> set (fetchDueDeliveries cfg t ?s'). dr_id q \<noteq> wd_id d"
        by blast
      with u False e show ?thesis by simp
    qed
  qed
  from sel have sel': "\<forall>t. \<forall>q \<in> set (fetchDueDeliveries cfg t ?s').
          \<exists>x \<in> set (webhookDeliveries ?s').
            q = toDeliveryRecord x \<and> wd_status x = ''pending''
            \<and> (\<exists>u. wd_nextAttemptAt x = Some u \<and> u \<le> t)"
    by (simp only: ds) blast
  from ex have ex': "\<exists>r \<in> set (webhookDeliveries ?s'). wd_id r = wd_id d" by (simp only: ds)
  show ?thesis
    by (intro exI [of _ ?s'] exI [of _ ?e] conjI run evs ex' rows sel')
qed

theorem processDelivery_failed_attempt_witness:
  "\<exists>s' e r.
      processDelivery ex_worker_config ex_worker_env (toDeliveryRecord ex_tired_delivery)
        ex_queue_db
        = Inr (s', [\<lparr> hr_url = ''https://hooks.example/in'', hr_event = ex_claim_event \<rparr>])
    \<and> events s' = [ex_claim_event, e]
    \<and> ev_type e = ''webhook.exhausted''
    \<and> r \<in> set (webhookDeliveries s')
    \<and> wd_id r = ''D1''
    \<and> wd_attemptCount r = 6
    \<and> wd_status r = ''failed''
    \<and> wd_nextAttemptAt r = None"
proof -
  have row: "ex_tired_delivery \<in> set (webhookDeliveries ex_queue_db)"
    by (simp add: ex_queue_db_def)
  have ev: "find (\<lambda>e. ev_tenantId e = wd_tenantId ex_tired_delivery
                      \<and> ev_id e = wd_eventId ex_tired_delivery) (events ex_queue_db)
              = Some ex_claim_event"
    by (simp add: ex_queue_db_def ex_db_after_def ex_tired_delivery_def ex_first_delivery_def
        ex_claim_event_def)
  have sec: "WEBHOOK_SIGNING_SECRET ex_worker_config = Some ''s3cret''" "''s3cret'' \<noteq> ''''"
    by (simp_all add: ex_worker_config_def defaultWorkerConfig_def)
  have fail: "case we_fetch ex_worker_env
                     \<lparr> hr_url = wd_url ex_tired_delivery, hr_event = ex_claim_event \<rparr> of
                 HttpResponse st body \<Rightarrow> st < 200 \<or> 299 < st
               | _ \<Rightarrow> True"
    by (simp add: ex_worker_env_def)
  from processDelivery_failed_attempt [OF row ev sec fail]
  obtain s' e where run: "processDelivery ex_worker_config ex_worker_env
        (toDeliveryRecord ex_tired_delivery) ex_queue_db
        = Inr (s', [\<lparr> hr_url = wd_url ex_tired_delivery, hr_event = ex_claim_event \<rparr>])"
    and evs: "events s' = events ex_queue_db @ [e]"
    and ex: "\<exists>r \<in> set (webhookDeliveries s'). wd_id r = wd_id ex_tired_delivery"
    and rows: "\<forall>r \<in> set (webhookDeliveries s'). wd_id r = wd_id ex_tired_delivery \<longrightarrow>
          wd_attemptCount r = wd_attemptCount ex_tired_delivery + 1
        \<and> (if wd_attemptCount ex_tired_delivery + 1 < WEBHOOK_RETRY_LIMIT ex_worker_config
           then wd_status r = ''pending''
              \<and> wd_nextAttemptAt r =
                  Some (we_now ex_worker_env
                        + [0, 10000, 60000, 300000, 1800000, 7200000]
                            ! min (wd_attemptCount ex_tired_delivery + 1) 5)
              \<and> ev_type e = ''webhook.failed''
           else wd_status r = ''failed''
              \<and> wd_nextAttemptAt r = None
              \<and> ev_type e = ''webhook.exhausted''
              \<and> (\<forall>t. \<forall>q \<in> set (fetchDueDeliveries ex_worker_config t s').
                    dr_id q \<noteq> wd_id ex_tired_delivery))"
    by blast
  from ex obtain r where r: "r \<in> set (webhookDeliveries s')" "wd_id r = wd_id ex_tired_delivery"
    by blast
  from rows r have "wd_attemptCount r = 6 \<and> wd_status r = ''failed''
      \<and> wd_nextAttemptAt r = None \<and> ev_type e = ''webhook.exhausted''"
    by (auto simp: ex_tired_delivery_def ex_first_delivery_def ex_worker_config_def
        defaultWorkerConfig_def)
  with run evs r show ?thesis
    by (auto simp: ex_tired_delivery_def ex_first_delivery_def ex_queue_db_def ex_db_after_def)
qed

text \<open>
  Claim C10. When the event a delivery refers to is not in the event log, the dispatcher
  marks the delivery failed with the error "Event not found" and no next attempt, leaves
  its attempt count as it was, sends no request and appends no event.
\<close>

theorem processDelivery_event_missing:
  assumes "find (\<lambda>e. ev_tenantId e = dr_tenantId delivery \<and> ev_id e = dr_eventId delivery)
             (events s) = None"
  shows "\<exists>s'. processDelivery cfg env delivery s = Inr (s', [])
    \<and> coreTables s' = coreTables s
    \<and> rateLimits s' = rateLimits s
    \<and> length (webhookDeliveries s') = length (webhookDeliveries s)
    \<and> (\<forall>i < length (webhookDeliveries s).
          (let old = webhookDeliveries s ! i; new = webhookDeliveries s' ! i in
           if wd_id old = dr_id delivery
           then new = old\<lparr> wd_status := ''failed'',
                           wd_lastError := Some ''Event not found'',
                           wd_lastAttemptAt := Some (we_now env),
                           wd_nextAttemptAt := None,
                           wd_updatedAt := we_now env \<rparr>
              \<and> wd_attemptCount new = wd_attemptCount old
           else new = old))"
  using assms by (simp add: processDelivery_def updateDelivery_def coreTables_def Let_def)

theorem processDelivery_event_missing_witness:
  "\<exists>s'. processDelivery ex_worker_config ex_worker_env (toDeliveryRecord ex_orphan_delivery)
            ex_orphan_db = Inr (s', [])
      \<and> events s' = [ex_claim_event]
      \<and> wd_status (webhookDeliveries s' ! 0) = ''failed''
      \<and> wd_lastError (webhookDeliveries s' ! 0) = Some ''Event not found''
      \<and> wd_nextAttemptAt (webhookDeliveries s' ! 0) = None
      \<and> wd_attemptCount (webhookDeliveries s' ! 0) = 0"
proof -
  have missing: "find (\<lambda>e. ev_tenantId e = dr_tenantId (toDeliveryRecord ex_orphan_delivery)
                          \<and> ev_id e = dr_eventId (toDeliveryRecord ex_orphan_delivery))
                   (events ex_orphan_db) = None"
    by (simp add: toDeliveryRecord_def ex_orphan_delivery_def ex_first_delivery_def
        ex_orphan_db_def ex_db_after_def ex_claim_event_def)
  from processDelivery_event_missing [OF missing, of ex_worker_config ex_worker_env]
  show ?thesis
    by (auto simp: coreTables_def toDeliveryRecord_def ex_orphan_delivery_def ex_first_delivery_def
        ex_orphan_db_def ex_db_after_def Let_def)
qed

section \<open>Replay trigger: properties\<close>

text \<open>
  Claim C8. The replay trigger fails with EVENT_NOT_FOUND when the tenant has no event
  with the given id; with WEBHOOK_NOT_CONFIGURED when the event exists and the tenant has
  no destination URL; and otherwise appends a new delivery row for the event and the
  destination, with attempt count 0, status pending and next attempt now, and returns its
  id. The rows already in the queue stay as they were.
\<close>

theorem POST_replay_contract:
  "(find (\<lambda>e. ev_tenantId e = tenantId \<and> ev_id e = eventId) (events s) = None
      \<longrightarrow> POST_replay env tenantId eventId s = (ReplayError ''EVENT_NOT_FOUND'' 404, s))
   \<and> (find (\<lambda>e. ev_tenantId e = tenantId \<and> ev_id e = eventId) (events s) = Some event
       \<and> (getTenantWebhookUrl s tenantId = None \<or> getTenantWebhookUrl s tenantId = Some '''')
      \<longrightarrow> POST_replay env tenantId eventId s = (ReplayError ''WEBHOOK_NOT_CONFIGURED'' 400, s))
   \<and> (find (\<lambda>e. ev_tenantId e = tenantId \<and> ev_id e = eventId) (events s) = Some event
       \<and> getTenantWebhookUrl s tenantId = Some url \<and> url \<noteq> ''''
      \<longrightarrow> POST_replay env tenantId eventId s =
            (ReplayOk eventId (rpe_newDeliveryId env) (ev_type event) 201,
             s\<lparr>webhookDeliveries := webhookDeliveries s @
                 [\<lparr> wd_id = rpe_newDeliveryId env,
                    wd_tenantId = tenantId,
                    wd_eventId = eventId,
                    wd_url = url,
                    wd_status = ''pending'',
                    wd_attemptCount = 0,
                    wd_lastAttemptAt = None,
                    wd_nextAttemptAt = Some (rpe_now env),
                    wd_lastError = None,
                    wd_createdAt = rpe_now env,
                    wd_updatedAt = rpe_now env \<rparr>]\<rparr>)
          \<and> take (length (webhookDeliveries s))
                (webhookDeliveries (snd (POST_replay env tenantId eventId s)))
              = webhookDeliveries s)"
proof (intro conjI impI)
  assume "find (\<lambda>e. ev_tenantId e = tenantId \<and> ev_id e = eventId) (events s) = None"
  then show "POST_replay env tenantId eventId s = (ReplayError ''EVENT_NOT_FOUND'' 404, s)"
    by (simp add: POST_replay_def)
next
  assume "find (\<lambda>e. ev_tenantId e = tenantId \<and> ev_id e = eventId) (events s) = Some event
       \<and> (getTenantWebhookUrl s tenantId = None \<or> getTenantWebhookUrl s tenantId = Some '''')"
  then show "POST_replay env tenantId eventId s = (ReplayError ''WEBHOOK_NOT_CONFIGURED'' 400, s)"
    by (auto simp: POST_replay_def getTenantWebhookUrl_def split: option.splits)
next
  assume a: "find (\<lambda>e. ev_tenantId e = tenantId \<and> ev_id e = eventId) (events s) = Some event
       \<and> getTenantWebhookUrl s tenantId = Some url \<and> url \<noteq> ''''"
  then have id: "ev_id event = eventId"
    by (auto simp: find_Some_iff)
  from a id show run: "POST_replay env tenantId eventId s =
            (ReplayOk eventId (rpe_newDeliveryId env) (ev_type event) 201,
             s\<lparr>webhookDeliveries := webhookDeliveries s @
                 [\<lparr> wd_id = rpe_newDeliveryId env,
                    wd_tenantId = tenantId,
                    wd_eventId = eventId,
                    wd_url = url,
                    wd_status = ''pending'',
                    wd_attemptCount = 0,
                    wd_lastAttemptAt = None,
                    wd_nextAttemptAt = Some (rpe_now env),
                    wd_lastError = None,
                    wd_createdAt = rpe_now env,
                    wd_updatedAt = rpe_now env \<rparr>]\<rparr>)"
    by (auto simp: POST_replay_def getTenantWebhookUrl_def Let_def split: option.splits)
  show "take (length (webhookDeliveries s))
                (webhookDeliveries (snd (POST_replay env tenantId eventId s)))
              = webhookDeliveries s"
    by (simp add: run)
qed

theorem POST_replay_contract_witness:
  "POST_replay ex_replay_env ''t1'' ''E404'' ex_db_after
     = (ReplayError ''EVENT_NOT_FOUND'' 404, ex_db_after)
   \<and> POST_replay ex_replay_env ''t1'' ''E1'' ex_db_no_webhook
     = (ReplayError ''WEBHOOK_NOT_CONFIGURED'' 400, ex_db_no_webhook)
   \<and> fst (POST_replay ex_replay_env ''t1'' ''E1'' ex_db_after)
     = ReplayOk ''E1'' ''D7'' ''referral.claimed'' 201
   \<and> take 1 (webhookDeliveries (snd (POST_replay ex_replay_env ''t1'' ''E1'' ex_db_after)))
     = [ex_first_delivery]
   \<and> map wd_id (webhookDeliveries (snd (POST_replay ex_replay_env ''t1'' ''E1'' ex_db_after)))
     = [''D1'', ''D7'']"
proof -
  have e404: "find (\<lambda>e. ev_tenantId e = ''t1'' \<and> ev_id e = ''E404'') (events ex_db_after) = None"
    by (simp add: ex_db_after_def ex_claim_event_def)
  have e1: "find (\<lambda>e. ev_tenantId e = ''t1'' \<and> ev_id e = ''E1'') (events s) = Some ex_claim_event"
    if "events s = [ex_claim_event]" for s
    using that by (simp add: ex_claim_event_def)
  have nourl: "getTenantWebhookUrl ex_db_no_webhook ''t1'' = None"
    by (simp add: getTenantWebhookUrl_def ex_db_no_webhook_def ex_db_after_def ex_tenant_def)
  have url: "getTenantWebhookUrl ex_db_after ''t1'' = Some ''https://hooks.example/in''"
    by (simp add: getTenantWebhookUrl_def ex_db_after_def ex_tenant_def)
  have a: "POST_replay ex_replay_env ''t1'' ''E404'' ex_db_after
             = (ReplayError ''EVENT_NOT_FOUND'' 404, ex_db_after)"
    using POST_replay_contract [where env = ex_replay_env and tenantId = "''t1''"
        and eventId = "''E404''" and s = ex_db_after] e404
    by simp
  have b: "POST_replay ex_replay_env ''t1'' ''E1'' ex_db_no_webhook
             = (ReplayError ''WEBHOOK_NOT_CONFIGURED'' 400, ex_db_no_webhook)"
    using POST_replay_contract [where env = ex_replay_env and tenantId = "''t1''"
        and eventId = "''E1''" and s = ex_db_no_webhook and event = ex_claim_event]
      e1 [of ex_db_no_webhook] nourl
    by (simp add: ex_db_no_webhook_def ex_db_after_def)
  have c: "POST_replay ex_replay_env ''t1'' ''E1'' ex_db_after =
            (ReplayOk ''E1'' (rpe_newDeliveryId ex_replay_env) (ev_type ex_claim_event) 201,
             ex_db_after\<lparr>webhookDeliveries := webhookDeliveries ex_db_after @
                 [\<lparr> wd_id = rpe_newDeliveryId ex_replay_env,
                    wd_tenantId = ''t1'',
                    wd_eventId = ''E1'',
                    wd_url = ''https://hooks.example/in'',
                    wd_status = ''pending'',
                    wd_attemptCount = 0,
                    wd_lastAttemptAt = None,
                    wd_nextAttemptAt = Some (rpe_now ex_replay_env),
                    wd_lastError = None,
                    wd_createdAt = rpe_now ex_replay_env,
                    wd_updatedAt = rpe_now ex_replay_env \<rparr>]\<rparr>)"
    using POST_replay_contract [where env = ex_replay_env and tenantId = "''t1''"
        and eventId = "''E1''" and s = ex_db_after and event = ex_claim_event
        and url = "''https://hooks.example/in''"]
      e1 [of ex_db_after] url
    by (simp add: ex_db_after_def)
  from a b show ?thesis
    by (simp add: c) (simp add: ex_db_after_def ex_replay_env_def ex_claim_event_def
        ex_first_delivery_def)
qed

section \<open>Rate limiter and claim processor: properties\<close>

lemma checkRateLimit_allowed:
  "allowed (fst (checkRateLimit up now \<lparr> rl_key = k, rl_tenantId = t, rl_limit = l \<rparr> rl))
     = admits up rl t k now l"
  by (simp add: checkRateLimit_def upsertCounter_def admits_def counterOf_def Let_def
      split: option.splits)

lemma checkRateLimit_counter_other:
  "k' \<noteq> k \<Longrightarrow>
   counterOf (snd (checkRateLimit up now \<lparr> rl_key = k, rl_tenantId = t, rl_limit = l \<rparr> rl))
     t' k' now' = counterOf rl t' k' now'"
  by (simp add: checkRateLimit_def upsertCounter_def counterOf_def Let_def split: option.splits)

lemma checkRateLimit_counter_same:
  "counterOf (snd (checkRateLimit up now \<lparr> rl_key = k, rl_tenantId = t, rl_limit = l \<rparr> rl))
     t k now = counterOf rl t k now + (if up then 1 else 0)"
  by (simp add: checkRateLimit_def upsertCounter_def counterOf_def Let_def split: option.splits)

lemma incrementRateLimitKey_counter_same:
  "counterOf (incrementRateLimitKey up now t k a rl) t k now
     = counterOf rl t k now + (if up then a else 0)"
  by (simp add: incrementRateLimitKey_def upsertCounter_def counterOf_def Let_def
      split: option.splits)

lemma incrementRateLimitKey_counter_other:
  "k' \<noteq> k \<Longrightarrow>
   counterOf (incrementRateLimitKey up now t k a rl) t' k' now' = counterOf rl t' k' now'"
  by (simp add: incrementRateLimitKey_def upsertCounter_def counterOf_def Let_def
      split: option.splits)

lemma checkRateLimit_rl_other:
  "key' \<noteq> (t, k, now - (now mod WINDOW_MS)) \<Longrightarrow>
   snd (checkRateLimit up now \<lparr> rl_key = k, rl_tenantId = t, rl_limit = l \<rparr> rl) key' = rl key'"
  by (simp add: checkRateLimit_def upsertCounter_def Let_def split: option.splits)

lemma incrementRateLimitKey_rl_other:
  "key' \<noteq> (t, k, now - (now mod WINDOW_MS)) \<Longrightarrow>
   incrementRateLimitKey up now t k a rl key' = rl key'"
  by (simp add: incrementRateLimitKey_def upsertCounter_def Let_def split: option.splits)

lemma admits_other:
  "k' \<noteq> k \<Longrightarrow>
   admits up' (snd (checkRateLimit up now \<lparr> rl_key = k, rl_tenantId = t, rl_limit = l \<rparr> rl))
     t' k' now' l' = admits up' rl t' k' now' l'"
  by (simp add: admits_def checkRateLimit_counter_other)

lemma checkRateLimit_down:
  "checkRateLimit False now config rl =
     (\<lparr> allowed = True, remaining = rl_limit config,
        resetAt = ceilDiv1000 (now - now mod WINDOW_MS + WINDOW_MS), retryAfterSeconds = 0 \<rparr>, rl)"
  by (simp add: checkRateLimit_def upsertCounter_def Let_def)

lemma afterIpCheck_tables [simp]:
  "tenants (afterIpCheck env t r s) = tenants s"
  "users (afterIpCheck env t r s) = users s"
  "referrals (afterIpCheck env t r s) = referrals s"
  "rewardsLedger (afterIpCheck env t r s) = rewardsLedger s"
  "events (afterIpCheck env t r s) = events s"
  "webhookDeliveries (afterIpCheck env t r s) = webhookDeliveries s"
  by (simp_all add: afterIpCheck_def)

lemma afterIpCheck_counter_other:
  "k \<noteq> ''claim:ip:'' @ getClientIp r \<Longrightarrow>
   counterOf (rateLimits (afterIpCheck env t r s)) t' k now' = counterOf (rateLimits s) t' k now'"
  by (simp add: afterIpCheck_def checkRateLimit_counter_other)

lemma admits_afterIpCheck:
  "k \<noteq> ''claim:ip:'' @ getClientIp r \<Longrightarrow>
   admits up (rateLimits (afterIpCheck env t r s)) t' k now' l = admits up (rateLimits s) t' k now' l"
  by (simp add: admits_def afterIpCheck_counter_other)

lemma afterUserCheck_tables [simp]:
  "tenants (afterUserCheck env t i s) = tenants s"
  "users (afterUserCheck env t i s) = users s"
  "referrals (afterUserCheck env t i s) = referrals s"
  "rewardsLedger (afterUserCheck env t i s) = rewardsLedger s"
  "events (afterUserCheck env t i s) = events s"
  "webhookDeliveries (afterUserCheck env t i s) = webhookDeliveries s"
  by (simp_all add: afterUserCheck_def)

lemma afterUserCheck_counter_other:
  "k \<noteq> ''claim:user:'' @ referredUserId i \<Longrightarrow>
   counterOf (rateLimits (afterUserCheck env t i s)) t' k now' = counterOf (rateLimits s) t' k now'"
  by (simp add: afterUserCheck_def checkRateLimit_counter_other)

lemma afterIpCheck_rl_other:
  "key' \<noteq> (t, ''claim:ip:'' @ getClientIp r, ce_now env - (ce_now env mod WINDOW_MS)) \<Longrightarrow>
   rateLimits (afterIpCheck env t r s) key' = rateLimits s key'"
  by (simp add: afterIpCheck_def checkRateLimit_rl_other)

lemma afterUserCheck_rl_other:
  "key' \<noteq> (t, ''claim:user:'' @ referredUserId i, ce_now env - (ce_now env mod WINDOW_MS)) \<Longrightarrow>
   rateLimits (afterUserCheck env t i s) key' = rateLimits s key'"
  by (simp add: afterUserCheck_def checkRateLimit_rl_other)

lemma afterIpCheck_counter_same:
  "counterOf (rateLimits (afterIpCheck env t r s)) t (''claim:ip:'' @ getClientIp r) (ce_now env)
     = counterOf (rateLimits s) t (''claim:ip:'' @ getClientIp r) (ce_now env)
       + (if ce_ipStoreUp env then 1 else 0)"
  by (simp add: afterIpCheck_def checkRateLimit_counter_same)

lemma afterUserCheck_counter_same:
  "counterOf (rateLimits (afterUserCheck env t i s)) t (''claim:user:'' @ referredUserId i)
       (ce_now env)
     = counterOf (rateLimits s) t (''claim:user:'' @ referredUserId i) (ce_now env)
       + (if ce_userStoreUp env then 1 else 0)"
  by (simp add: afterUserCheck_def checkRateLimit_counter_same)

lemma invalidCodeAttempt_counter:
  "counterOf (snd (invalidCodeAttempt env t ip rl)) t (''invalid_ref:ip:'' @ ip) (ce_now env)
     = counterOf rl t (''invalid_ref:ip:'' @ ip) (ce_now env)
       + (if ce_invalidIncrementStoreUp env then 1 else 0)
       + (if ce_invalidCheckStoreUp env then 1 else 0)"
  by (simp add: invalidCodeAttempt_def Let_def split_def checkRateLimit_counter_same
      incrementRateLimitKey_counter_same)

lemma invalidCodeAttempt_counter_other:
  "k \<noteq> ''invalid_ref:ip:'' @ ip \<Longrightarrow>
   counterOf (snd (invalidCodeAttempt env t ip rl)) t' k now' = counterOf rl t' k now'"
  by (simp add: invalidCodeAttempt_def Let_def split_def checkRateLimit_counter_other
      incrementRateLimitKey_counter_other)

lemma invalidCodeAttempt_rl_other:
  "key' \<noteq> (t, ''invalid_ref:ip:'' @ ip, ce_now env - (ce_now env mod WINDOW_MS)) \<Longrightarrow>
   snd (invalidCodeAttempt env t ip rl) key' = rl key'"
  by (simp add: invalidCodeAttempt_def Let_def split_def checkRateLimit_rl_other
      incrementRateLimitKey_rl_other)

lemma invalidCodeAttempt_allowed:
  "allowed (fst (invalidCodeAttempt env t ip rl)) \<longleftrightarrow>
     (if ce_invalidCheckStoreUp env
      then counterOf rl t (''invalid_ref:ip:'' @ ip) (ce_now env)
             + (if ce_incrementFirst env \<and> ce_invalidIncrementStoreUp env then 1 else 0) + 1
           \<le> INVALID_REF_PER_IP
      else True)"
  by (simp add: invalidCodeAttempt_def Let_def split_def checkRateLimit_allowed admits_def
      incrementRateLimitKey_counter_same)

lemma handle_ip_rejected:
  "\<not> admits (ce_ipStoreUp env) (rateLimits s) tenantId (''claim:ip:'' @ getClientIp request)
       (ce_now env) CLAIM_PER_IP \<Longrightarrow>
   \<exists>n. handleClaimReferral env tenantId request s =
     (Inr (ErrorResponse ''RATE_LIMITED'' 429 (Some n)), afterIpCheck env tenantId request s)"
  by (simp add: handleClaimReferral_def Let_def split_def checkRateLimit_allowed afterIpCheck_def)

lemma handle_invalid:
  "admits (ce_ipStoreUp env) (rateLimits s) tenantId (''claim:ip:'' @ getClientIp request)
       (ce_now env) CLAIM_PER_IP \<Longrightarrow> validatedInput request = None \<Longrightarrow>
   handleClaimReferral env tenantId request s =
     (Inr (ErrorResponse ''INVALID_REQUEST'' 400 None), afterIpCheck env tenantId request s)"
  by (auto simp: handleClaimReferral_def Let_def split_def checkRateLimit_allowed afterIpCheck_def
      validatedInput_def split: option.splits if_splits)

lemma handle_valid:
  "admits (ce_ipStoreUp env) (rateLimits s) tenantId (''claim:ip:'' @ getClientIp request)
       (ce_now env) CLAIM_PER_IP \<Longrightarrow> validatedInput request = Some input \<Longrightarrow>
   handleClaimReferral env tenantId request s =
     claimValidated env tenantId (getClientIp request) input (afterIpCheck env tenantId request s)"
  by (auto simp: handleClaimReferral_def Let_def split_def checkRateLimit_allowed afterIpCheck_def
      validatedInput_def split: option.splits if_splits)

lemma cv_user_rejected:
  "\<not> admits (ce_userStoreUp env) (rateLimits s) tenantId (''claim:user:'' @ referredUserId input)
       (ce_now env) CLAIM_PER_USER \<Longrightarrow>
   \<exists>n. claimValidated env tenantId clientIp input s =
     (Inr (ErrorResponse ''RATE_LIMITED'' 429 (Some n)), afterUserCheck env tenantId input s)"
  by (simp add: claimValidated_def Let_def split_def checkRateLimit_allowed afterUserCheck_def)

lemma cv_replay:
  "admits (ce_userStoreUp env) (rateLimits s) tenantId (''claim:user:'' @ referredUserId input)
       (ce_now env) CLAIM_PER_USER \<Longrightarrow>
   getReferralByReferredExternalUserId s tenantId (referredUserId input) = Some existing \<Longrightarrow>
   claimValidated env tenantId clientIp input s =
     (Inr (alreadyProcessedResponse s existing), afterUserCheck env tenantId input s)"
  by (simp add: claimValidated_def Let_def split_def checkRateLimit_allowed afterUserCheck_def
      getReferralByReferredExternalUserId_def alreadyProcessedResponse_def)

lemma cv_code_not_found:
  assumes "admits (ce_userStoreUp env) (rateLimits s) tenantId
             (''claim:user:'' @ referredUserId input) (ce_now env) CLAIM_PER_USER"
    and "getReferralByReferredExternalUserId s tenantId (referredUserId input) = None"
    and "getUserByReferralCode s tenantId (referralCode input) = None"
  shows "claimValidated env tenantId clientIp input s =
     (let s1 = afterUserCheck env tenantId input s;
          attempt = invalidCodeAttempt env tenantId clientIp (rateLimits s1)
      in (Inr (if allowed (fst attempt) then ErrorResponse ''REFERRAL_CODE_NOT_FOUND'' 404 None
               else ErrorResponse ''RATE_LIMITED'' 429
                      (Some (retryAfterSeconds (fst attempt)))),
          s1\<lparr>rateLimits := snd attempt\<rparr>))"
  using assms
  by (simp add: claimValidated_def Let_def split_def checkRateLimit_allowed afterUserCheck_def
      getReferralByReferredExternalUserId_def getUserByReferralCode_def)

lemma claimTransaction_existing:
  "getReferralByReferredExternalUserId s tenantId (referredUserId input) = Some existing \<Longrightarrow>
   claimTransaction env tenantId input referrer tenant referredUser s
     = Inr (TxAlreadyProcessed existing, s)"
  by (simp add: claimTransaction_def getReferralByReferredExternalUserId_def)

lemmas rate_limit_defs = checkRateLimit_def upsertCounter_def ceilDiv1000_def WINDOW_MS_def
  incrementRateLimitKey_def CLAIM_PER_IP_def CLAIM_PER_USER_def INVALID_REF_PER_IP_def
  admits_def counterOf_def

lemmas example_defs = ex_db_def ex_env_def ex_request_def ex_tenant_def ex_referrer_def
  ex_db_claimed_def ex_referral_def ex_db_user_limited_def ex_db_ip_limited_def
  ex_db_invalid_attempts_def ex_referred_user_def ex_reward_json_def ex_ledger_entry_def
  ex_claim_event_def ex_first_delivery_def ex_db_after_def ex_calc_input_def
  ex_duplicate_entry_def ex_long_request_def ex_env_down_def ex_worker_config_def
  ex_worker_env_def ex_tired_delivery_def ex_queue_db_def ex_orphan_delivery_def
  ex_orphan_db_def ex_db_no_webhook_def ex_replay_env_def defaultWorkerConfig_def

lemmas claim_defs = handleClaimReferral_def claimValidated_def claimTransaction_def
  invalidCodeAttempt_def truthy_def toNumber_def
  getClientIp_def claimReferralSchema_def MAX_EXTERNAL_USER_ID_LENGTH_def
  MAX_REFERRAL_CODE_LENGTH_def getReferralByReferredExternalUserId_def getUserByReferralCode_def
  getUserByExternalId_def getTenant_def countReferralsByReferrer_def maxReferralsPerReferrer_def
  userConflict_def insertReward_def insertLedgerOnConflictDoNothing_def ledgerConflict_def
  insertEvent_def enqueueAfterCommit_def enqueueWebhookForExistingEvent_def
  enqueueWebhookDelivery_def getTenantWebhookUrl_def createdResponse_def rewardAmountOf_def
  alreadyProcessedResponse_def POST_claim_def validatedInput_def

lemmas reward_defs = calculateRewards_def calculateReferrerReward_def calculateReferredReward_def
  normalizeRewardRules_def normalizeSubscriptionTier_def DEFAULT_REWARD_RULES_def numberOr_def
  trim_def toLowerCase_def lowerChar_def isWhiteSpace_def

lemma ex_client_ip: "getClientIp (ex_request code uid) = ''10.0.0.1''"
  by (simp add: getClientIp_def ex_request_def)

lemma ex_valid_input:
  "validatedInput (ex_request ''REF123'' ''u2'')
     = Some \<lparr> referralCode = ''REF123'', referredUserId = ''u2'' \<rparr>"
  "validatedInput (ex_request ''NOPE'' ''u2'')
     = Some \<lparr> referralCode = ''NOPE'', referredUserId = ''u2'' \<rparr>"
  by (simp_all add: validatedInput_def ex_request_def claimReferralSchema_def
      MAX_EXTERNAL_USER_ID_LENGTH_def MAX_REFERRAL_CODE_LENGTH_def)

lemma ex_long_invalid: "validatedInput ex_long_request = None"
  by (simp add: validatedInput_def ex_long_request_def ex_request_def claimReferralSchema_def
      MAX_EXTERNAL_USER_ID_LENGTH_def MAX_REFERRAL_CODE_LENGTH_def)

lemma scenario_first_claim:
  "handleClaimReferral ex_env ''t1'' (ex_request ''REF123'' ''u2'') ex_db =
     (Inr (SuccessResponse
             \<lparr> cr_referral =
                 \<lparr> rv_id = ''R1'', rv_referrerUserId = ''u1'', rv_referredExternalUserId = ''u2'',
                   rv_refCodeUsed = ''REF123'', rv_status = ''completed'',
                   rv_createdAt = 1000000 \<rparr>,
               cr_referrerReward = Some \<lparr> ra_amount = 200, ra_currency = ''AUD'' \<rparr>,
               cr_referredReward = None,
               cr_alreadyProcessed = False \<rparr>
             201),
      ex_db_after)"
  by (simp add: claim_defs rate_limit_defs example_defs reward_defs Let_def)

text \<open>
  Claim C5, as amended. The per-IP rate-limit check comes first: a request it rejects is
  answered RATE_LIMITED whatever its body. A request it admits whose body fails an input
  check is answered INVALID_REQUEST before the per-user check runs, so whatever the
  per-user counters hold, and they are left untouched; a body whose referralCode or
  referredUserId is outside its length bounds fails an input check. The per-user check
  comes third: a request that passes the first two steps and that it rejects is answered
  RATE_LIMITED.
\<close>

theorem claim_validation_order:
  "(\<not> admits (ce_ipStoreUp env) (rateLimits s) tenantId (''claim:ip:'' @ getClientIp request)
         (ce_now env) CLAIM_PER_IP
     \<longrightarrow> (\<exists>n. handleClaimReferral env tenantId request s =
            (Inr (ErrorResponse ''RATE_LIMITED'' 429 (Some n)),
             afterIpCheck env tenantId request s)))
   \<and> (admits (ce_ipStoreUp env) (rateLimits s) tenantId (''claim:ip:'' @ getClientIp request)
         (ce_now env) CLAIM_PER_IP
       \<and> validatedInput request = None
     \<longrightarrow> handleClaimReferral env tenantId request s =
           (Inr (ErrorResponse ''INVALID_REQUEST'' 400 None), afterIpCheck env tenantId request s)
         \<and> (\<forall>t uid now'.
               counterOf (rateLimits (afterIpCheck env tenantId request s)) t
                 (''claim:user:'' @ uid) now'
               = counterOf (rateLimits s) t (''claim:user:'' @ uid) now'))
   \<and> (admits (ce_ipStoreUp env) (rateLimits s) tenantId (''claim:ip:'' @ getClientIp request)
         (ce_now env) CLAIM_PER_IP
       \<and> validatedInput request = Some input
       \<and> \<not> admits (ce_userStoreUp env) (rateLimits s) tenantId
             (''claim:user:'' @ referredUserId input) (ce_now env) CLAIM_PER_USER
     \<longrightarrow> (\<exists>n. handleClaimReferral env tenantId request s =
            (Inr (ErrorResponse ''RATE_LIMITED'' 429 (Some n)),
             afterUserCheck env tenantId input (afterIpCheck env tenantId request s))))
   \<and> (rq_body request = Some (JObject props)
       \<and> map_of props ''referralCode'' = Some (JString code)
       \<and> map_of props ''referredUserId'' = Some (JString uid)
       \<and> (length code < 1 \<or> MAX_REFERRAL_CODE_LENGTH < length code
          \<or> length uid < 1 \<or> MAX_EXTERNAL_USER_ID_LENGTH < length uid)
     \<longrightarrow> validatedInput request = None)"
proof (intro conjI impI)
  assume "\<not> admits (ce_ipStoreUp env) (rateLimits s) tenantId
              (''claim:ip:'' @ getClientIp request) (ce_now env) CLAIM_PER_IP"
  then show "\<exists>n. handleClaimReferral env tenantId request s =
            (Inr (ErrorResponse ''RATE_LIMITED'' 429 (Some n)),
             afterIpCheck env tenantId request s)"
    by (rule handle_ip_rejected)
next
  assume a: "admits (ce_ipStoreUp env) (rateLimits s) tenantId
               (''claim:ip:'' @ getClientIp request) (ce_now env) CLAIM_PER_IP
             \<and> validatedInput request = None"
  then show "handleClaimReferral env tenantId request s =
           (Inr (ErrorResponse ''INVALID_REQUEST'' 400 None), afterIpCheck env tenantId request s)"
    by (simp add: handle_invalid)
  show "\<forall>t uid now'.
               counterOf (rateLimits (afterIpCheck env tenantId request s)) t
                 (''claim:user:'' @ uid) now'
               = counterOf (rateLimits s) t (''claim:user:'' @ uid) now'"
    by (simp add: afterIpCheck_counter_other)
next
  assume a: "admits (ce_ipStoreUp env) (rateLimits s) tenantId
               (''claim:ip:'' @ getClientIp request) (ce_now env) CLAIM_PER_IP
       \<and> validatedInput request = Some input
       \<and> \<not> admits (ce_userStoreUp env) (rateLimits s) tenantId
             (''claim:user:'' @ referredUserId input) (ce_now env) CLAIM_PER_USER"
  let ?s1 = "afterIpCheck env tenantId request s"
  from a have run: "handleClaimReferral env tenantId request s
          = claimValidated env tenantId (getClientIp request) input ?s1"
    by (simp add: handle_valid)
  from a have "\<not> admits (ce_userStoreUp env) (rateLimits ?s1) tenantId
                   (''claim:user:'' @ referredUserId input) (ce_now env) CLAIM_PER_USER"
    by (simp add: admits_afterIpCheck)
  from cv_user_rejected [OF this, of "getClientIp request"] run
  show "\<exists>n. handleClaimReferral env tenantId request s =
            (Inr (ErrorResponse ''RATE_LIMITED'' 429 (Some n)),
             afterUserCheck env tenantId input ?s1)"
    by simp
next
  assume "rq_body request = Some (JObject props)
       \<and> map_of props ''referralCode'' = Some (JString code)
       \<and> map_of props ''referredUserId'' = Some (JString uid)
       \<and> (length code < 1 \<or> MAX_REFERRAL_CODE_LENGTH < length code
          \<or> length uid < 1 \<or> MAX_EXTERNAL_USER_ID_LENGTH < length uid)"
  then show "validatedInput request = None"
    by (auto simp: validatedInput_def claimReferralSchema_def)
qed

theorem claim_validation_order_witness:
  "(\<exists>n. handleClaimReferral ex_env ''t1'' ex_long_request ex_db_ip_limited =
          (Inr (ErrorResponse ''RATE_LIMITED'' 429 (Some n)),
           afterIpCheck ex_env ''t1'' ex_long_request ex_db_ip_limited))
   \<and> handleClaimReferral ex_env ''t1'' ex_long_request ex_db_user_limited =
        (Inr (ErrorResponse ''INVALID_REQUEST'' 400 None),
         afterIpCheck ex_env ''t1'' ex_long_request ex_db_user_limited)
   \<and> (\<exists>n. handleClaimReferral ex_env ''t1'' (ex_request ''REF123'' ''u2'') ex_db_user_limited =
          (Inr (ErrorResponse ''RATE_LIMITED'' 429 (Some n)),
           afterUserCheck ex_env ''t1'' \<lparr> referralCode = ''REF123'', referredUserId = ''u2'' \<rparr>
             (afterIpCheck ex_env ''t1'' (ex_request ''REF123'' ''u2'') ex_db_user_limited)))
   \<and> validatedInput ex_long_request = None"
proof -
  let ?input = "\<lparr> referralCode = ''REF123'', referredUserId = ''u2'' \<rparr>"
  let ?props = "[(''referralCode'', JString (replicate 51 (CHR ''x''))),
                 (''referredUserId'', JString ''u2'')]"
  have ip: "getClientIp ex_long_request = ''10.0.0.1''"
    by (simp add: ex_long_request_def ex_client_ip)
  have rejected: "\<not> admits (ce_ipStoreUp ex_env) (rateLimits ex_db_ip_limited) ''t1''
                      (''claim:ip:'' @ getClientIp ex_long_request) (ce_now ex_env) CLAIM_PER_IP"
    by (simp add: ip admits_def counterOf_def WINDOW_MS_def CLAIM_PER_IP_def ex_env_def
        ex_db_ip_limited_def ex_db_def)
  have admitted: "admits (ce_ipStoreUp ex_env) (rateLimits ex_db_user_limited) ''t1''
                      (''claim:ip:'' @ getClientIp r) (ce_now ex_env) CLAIM_PER_IP"
    if "getClientIp r = ''10.0.0.1''" for r
    using that
    by (simp add: admits_def counterOf_def WINDOW_MS_def CLAIM_PER_IP_def ex_env_def
        ex_db_user_limited_def ex_db_claimed_def ex_db_def)
  have user: "\<not> admits (ce_userStoreUp ex_env) (rateLimits ex_db_user_limited) ''t1''
                  (''claim:user:'' @ referredUserId ?input) (ce_now ex_env) CLAIM_PER_USER"
    by (simp add: admits_def counterOf_def WINDOW_MS_def CLAIM_PER_USER_def ex_env_def
        ex_db_user_limited_def ex_db_claimed_def ex_db_def)
  note inst = claim_validation_order [where env = ex_env and tenantId = "''t1''"
      and input = ?input and props = ?props and code = "replicate 51 (CHR ''x'')"
      and uid = "''u2''"]
  have body: "rq_body ex_long_request = Some (JObject ?props)"
    by (simp add: ex_long_request_def ex_request_def)
  have fields: "map_of ?props ''referralCode'' = Some (JString (replicate 51 (CHR ''x'')))"
    "map_of ?props ''referredUserId'' = Some (JString ''u2'')"
    by simp_all
  have bound: "MAX_REFERRAL_CODE_LENGTH < length (replicate 51 (CHR ''x''))"
    by (simp add: MAX_REFERRAL_CODE_LENGTH_def)
  have long: "validatedInput ex_long_request = None"
    using inst [where request = ex_long_request and s = ex_db] body fields bound
    by blast
  have a: "\<exists>n. handleClaimReferral ex_env ''t1'' ex_long_request ex_db_ip_limited =
          (Inr (ErrorResponse ''RATE_LIMITED'' 429 (Some n)),
           afterIpCheck ex_env ''t1'' ex_long_request ex_db_ip_limited)"
    using inst [where request = ex_long_request and s = ex_db_ip_limited] rejected
    by blast
  have b: "handleClaimReferral ex_env ''t1'' ex_long_request ex_db_user_limited =
        (Inr (ErrorResponse ''INVALID_REQUEST'' 400 None),
         afterIpCheck ex_env ''t1'' ex_long_request ex_db_user_limited)"
    using inst [where request = ex_long_request and s = ex_db_user_limited]
      admitted [OF ip] long
    by blast
  have c: "\<exists>n. handleClaimReferral ex_env ''t1'' (ex_request ''REF123'' ''u2'')
              ex_db_user_limited =
          (Inr (ErrorResponse ''RATE_LIMITED'' 429 (Some n)),
           afterUserCheck ex_env ''t1'' ?input
             (afterIpCheck ex_env ''t1'' (ex_request ''REF123'' ''u2'') ex_db_user_limited))"
    using inst [where request = "ex_request ''REF123'' ''u2''" and s = ex_db_user_limited]
      admitted [OF ex_client_ip] ex_valid_input(1) user
    by blast
  from a b c long show ?thesis by blast
qed

theorem claim_validation_order_counterexample:
  "MAX_REFERRAL_CODE_LENGTH < length (replicate 51 (CHR ''x''))
   \<and> fst (POST_claim ex_env ''t1'' (ex_request (replicate 51 (CHR ''x'')) ''u2'') ex_db_ip_limited)
       = ErrorResponse ''RATE_LIMITED'' 429 (Some 20)"
  by (simp add: claim_defs rate_limit_defs example_defs Let_def)

text \<open>
  Claim C1, as amended. When a referral exists for the tenant and the referred user, a
  claim for that user that passes the per-IP check, the input checks and the per-user
  check is answered with success, status 200, \<open>alreadyProcessed\<close> true, the id of the
  existing referral and no reward on either side. It changes no tenant, user, referral,
  ledger, event or delivery row; of the rate-limit counters it changes the caller's
  per-IP and per-user counters of the current window, each by one when the store executes
  the statement, and no other. The transaction itself, run on such a state, returns the
  existing referral and writes nothing.
\<close>

theorem claim_replay:
  assumes ip: "admits (ce_ipStoreUp env) (rateLimits s) tenantId
                 (''claim:ip:'' @ getClientIp request) (ce_now env) CLAIM_PER_IP"
    and valid: "validatedInput request = Some input"
    and user: "admits (ce_userStoreUp env) (rateLimits s) tenantId
                 (''claim:user:'' @ referredUserId input) (ce_now env) CLAIM_PER_USER"
    and ex: "getReferralByReferredExternalUserId s tenantId (referredUserId input) = Some existing"
  shows "\<exists>resp s'.
      handleClaimReferral env tenantId request s = (Inr (SuccessResponse resp 200), s')
    \<and> cr_alreadyProcessed resp
    \<and> rv_id (cr_referral resp) = rf_id existing
    \<and> cr_referrerReward resp = None
    \<and> cr_referredReward resp = None
    \<and> coreTables s' = coreTables s
    \<and> webhookDeliveries s' = webhookDeliveries s
    \<and> counterOf (rateLimits s') tenantId (''claim:ip:'' @ getClientIp request) (ce_now env)
        = counterOf (rateLimits s) tenantId (''claim:ip:'' @ getClientIp request) (ce_now env)
          + (if ce_ipStoreUp env then 1 else 0)
    \<and> counterOf (rateLimits s') tenantId (''claim:user:'' @ referredUserId input) (ce_now env)
        = counterOf (rateLimits s) tenantId (''claim:user:'' @ referredUserId input) (ce_now env)
          + (if ce_userStoreUp env then 1 else 0)
    \<and> (\<forall>key.
          key \<noteq> (tenantId, ''claim:ip:'' @ getClientIp request,
                   ce_now env - (ce_now env mod WINDOW_MS))
          \<and> key \<noteq> (tenantId, ''claim:user:'' @ referredUserId input,
                     ce_now env - (ce_now env mod WINDOW_MS))
          \<longrightarrow> rateLimits s' key = rateLimits s key)
    \<and> (\<forall>referrer tenant referredUser.
          claimTransaction env tenantId input referrer tenant referredUser s
            = Inr (TxAlreadyProcessed existing, s))"
proof -
  let ?s1 = "afterIpCheck env tenantId request s"
  let ?s2 = "afterUserCheck env tenantId input ?s1"
  have user1: "admits (ce_userStoreUp env) (rateLimits ?s1) tenantId
                 (''claim:user:'' @ referredUserId input) (ce_now env) CLAIM_PER_USER"
    using user by (simp add: admits_afterIpCheck)
  have ex1: "getReferralByReferredExternalUserId ?s1 tenantId (referredUserId input) = Some existing"
    using ex by (simp add: getReferralByReferredExternalUserId_def)
  have "handleClaimReferral env tenantId request s
          = claimValidated env tenantId (getClientIp request) input ?s1"
    using ip valid by (rule handle_valid)
  also have "\<dots> = (Inr (alreadyProcessedResponse ?s1 existing), ?s2)"
    using user1 ex1 by (rule cv_replay)
  finally have run: "handleClaimReferral env tenantId request s
          = (Inr (alreadyProcessedResponse ?s1 existing), ?s2)" .
  obtain resp where resp: "alreadyProcessedResponse ?s1 existing = SuccessResponse resp 200"
    "cr_alreadyProcessed resp" "rv_id (cr_referral resp) = rf_id existing"
    "cr_referrerReward resp = None" "cr_referredReward resp = None"
    by (simp add: alreadyProcessedResponse_def Let_def)
  have tables: "coreTables ?s2 = coreTables s" "webhookDeliveries ?s2 = webhookDeliveries s"
    by (simp_all add: coreTables_def)
  have cip: "counterOf (rateLimits ?s2) tenantId (''claim:ip:'' @ getClientIp request) (ce_now env)
        = counterOf (rateLimits s) tenantId (''claim:ip:'' @ getClientIp request) (ce_now env)
          + (if ce_ipStoreUp env then 1 else 0)"
    using afterIpCheck_counter_same [of env tenantId request s]
    by (simp add: afterUserCheck_counter_other)
  have cuser: "counterOf (rateLimits ?s2) tenantId (''claim:user:'' @ referredUserId input)
          (ce_now env)
        = counterOf (rateLimits s) tenantId (''claim:user:'' @ referredUserId input) (ce_now env)
          + (if ce_userStoreUp env then 1 else 0)"
    using afterUserCheck_counter_same [of env tenantId input ?s1]
    by (simp add: afterIpCheck_counter_other)
  have others: "\<forall>key.
          key \<noteq> (tenantId, ''claim:ip:'' @ getClientIp request,
                   ce_now env - (ce_now env mod WINDOW_MS))
          \<and> key \<noteq> (tenantId, ''claim:user:'' @ referredUserId input,
                     ce_now env - (ce_now env mod WINDOW_MS))
          \<longrightarrow> rateLimits ?s2 key = rateLimits s key"
    by (simp add: afterUserCheck_rl_other afterIpCheck_rl_other)
  have tx: "\<forall>referrer tenant referredUser.
          claimTransaction env tenantId input referrer tenant referredUser s
            = Inr (TxAlreadyProcessed existing, s)"
    using ex by (simp add: claimTransaction_existing)
  have run': "handleClaimReferral env tenantId request s = (Inr (SuccessResponse resp 200), ?s2)"
    using run resp(1) by simp
  show ?thesis
  proof (intro exI conjI)
    show "handleClaimReferral env tenantId request s = (Inr (SuccessResponse resp 200), ?s2)"
      by (rule run')
    show "cr_alreadyProcessed resp" by (rule resp(2))
    show "rv_id (cr_referral resp) = rf_id existing" by (rule resp(3))
    show "cr_referrerReward resp = None" by (rule resp(4))
    show "cr_referredReward resp = None" by (rule resp(5))
    show "coreTables ?s2 = coreTables s" by (rule tables(1))
    show "webhookDeliveries ?s2 = webhookDeliveries s" by (rule tables(2))
    show "counterOf (rateLimits ?s2) tenantId (''claim:ip:'' @ getClientIp request) (ce_now env)
        = counterOf (rateLimits s) tenantId (''claim:ip:'' @ getClientIp request) (ce_now env)
          + (if ce_ipStoreUp env then 1 else 0)"
      by (rule cip)
    show "counterOf (rateLimits ?s2) tenantId (''claim:user:'' @ referredUserId input)
          (ce_now env)
        = counterOf (rateLimits s) tenantId (''claim:user:'' @ referredUserId input) (ce_now env)
          + (if ce_userStoreUp env then 1 else 0)"
      by (rule cuser)
    show "\<forall>key.
          key \<noteq> (tenantId, ''claim:ip:'' @ getClientIp request,
                   ce_now env - (ce_now env mod WINDOW_MS))
          \<and> key \<noteq> (tenantId, ''claim:user:'' @ referredUserId input,
                     ce_now env - (ce_now env mod WINDOW_MS))
          \<longrightarrow> rateLimits ?s2 key = rateLimits s key"
      by (rule others)
    show "\<forall>referrer tenant referredUser.
          claimTransaction env tenantId input referrer tenant referredUser s
            = Inr (TxAlreadyProcessed existing, s)"
      by (rule tx)
  qed
qed

theorem claim_replay_witness:
  "\<exists>resp s'.
      handleClaimReferral ex_env ''t1'' (ex_request ''REF123'' ''u2'') ex_db_after
        = (Inr (SuccessResponse resp 200), s')
    \<and> cr_alreadyProcessed resp
    \<and> rv_id (cr_referral resp) = ''R1''
    \<and> cr_referrerReward resp = None
    \<and> cr_referredReward resp = None
    \<and> coreTables s' = coreTables ex_db_after
    \<and> webhookDeliveries s' = webhookDeliveries ex_db_after
    \<and> counterOf (rateLimits s') ''t1'' ''claim:ip:10.0.0.1'' 1000000 = 2
    \<and> counterOf (rateLimits s') ''t1'' ''claim:user:u2'' 1000000 = 2
    \<and> rateLimits s' (''t1'', ''invalid_ref:ip:10.0.0.1'', 960000) = None"
proof -
  let ?input = "\<lparr> referralCode = ''REF123'', referredUserId = ''u2'' \<rparr>"
  have ip: "admits (ce_ipStoreUp ex_env) (rateLimits ex_db_after) ''t1''
              (''claim:ip:'' @ getClientIp (ex_request ''REF123'' ''u2'')) (ce_now ex_env)
              CLAIM_PER_IP"
    by (simp add: ex_client_ip admits_def counterOf_def WINDOW_MS_def CLAIM_PER_IP_def
        ex_env_def ex_db_after_def)
  have user: "admits (ce_userStoreUp ex_env) (rateLimits ex_db_after) ''t1''
              (''claim:user:'' @ referredUserId ?input) (ce_now ex_env) CLAIM_PER_USER"
    by (simp add: admits_def counterOf_def WINDOW_MS_def CLAIM_PER_USER_def
        ex_env_def ex_db_after_def)
  have ex: "getReferralByReferredExternalUserId ex_db_after ''t1'' (referredUserId ?input)
              = Some ex_referral"
    by (simp add: getReferralByReferredExternalUserId_def ex_db_after_def ex_referral_def)
  have before: "counterOf (rateLimits ex_db_after) ''t1'' ''claim:ip:10.0.0.1'' 1000000 = 1"
    "counterOf (rateLimits ex_db_after) ''t1'' ''claim:user:u2'' 1000000 = 1"
    "rateLimits ex_db_after (''t1'', ''invalid_ref:ip:10.0.0.1'', 960000) = None"
    by (simp_all add: counterOf_def WINDOW_MS_def ex_db_after_def)
  from claim_replay [OF ip ex_valid_input(1) user ex]
  obtain resp s' where r:
      "handleClaimReferral ex_env ''t1'' (ex_request ''REF123'' ''u2'') ex_db_after
         = (Inr (SuccessResponse resp 200), s')"
      "cr_alreadyProcessed resp" "rv_id (cr_referral resp) = rf_id ex_referral"
      "cr_referrerReward resp = None" "cr_referredReward resp = None"
      "coreTables s' = coreTables ex_db_after"
      "webhookDeliveries s' = webhookDeliveries ex_db_after"
      "counterOf (rateLimits s') ''t1''
         (''claim:ip:'' @ getClientIp (ex_request ''REF123'' ''u2'')) (ce_now ex_env)
       = counterOf (rateLimits ex_db_after) ''t1''
           (''claim:ip:'' @ getClientIp (ex_request ''REF123'' ''u2'')) (ce_now ex_env)
         + (if ce_ipStoreUp ex_env then 1 else 0)"
      "counterOf (rateLimits s') ''t1'' (''claim:user:'' @ referredUserId ?input) (ce_now ex_env)
       = counterOf (rateLimits ex_db_after) ''t1'' (''claim:user:'' @ referredUserId ?input)
           (ce_now ex_env)
         + (if ce_userStoreUp ex_env then 1 else 0)"
      "\<forall>key.
          key \<noteq> (''t1'', ''claim:ip:'' @ getClientIp (ex_request ''REF123'' ''u2''),
                   ce_now ex_env - (ce_now ex_env mod WINDOW_MS))
          \<and> key \<noteq> (''t1'', ''claim:user:'' @ referredUserId ?input,
                     ce_now ex_env - (ce_now ex_env mod WINDOW_MS))
          \<longrightarrow> rateLimits s' key = rateLimits ex_db_after key"
    by (elim exE conjE) (rule that; assumption)
  from r(8) have cip: "counterOf (rateLimits s') ''t1'' ''claim:ip:10.0.0.1'' 1000000 = 2"
    using before(1) by (simp add: ex_client_ip ex_env_def)
  from r(9) have cuser: "counterOf (rateLimits s') ''t1'' ''claim:user:u2'' 1000000 = 2"
    using before(2) by (simp add: ex_env_def)
  from r(10) have other: "rateLimits s' (''t1'', ''invalid_ref:ip:10.0.0.1'', 960000) = None"
    using before(3) by (simp add: ex_client_ip ex_env_def WINDOW_MS_def)
  from r(3) have rid: "rv_id (cr_referral resp) = ''R1''" by (simp add: ex_referral_def)
  show ?thesis
  proof (intro exI conjI)
    show "handleClaimReferral ex_env ''t1'' (ex_request ''REF123'' ''u2'') ex_db_after
            = (Inr (SuccessResponse resp 200), s')"
      by (rule r(1))
    show "cr_alreadyProcessed resp" by (rule r(2))
    show "rv_id (cr_referral resp) = ''R1''" by (rule rid)
    show "cr_referrerReward resp = None" by (rule r(4))
    show "cr_referredReward resp = None" by (rule r(5))
    show "coreTables s' = coreTables ex_db_after" by (rule r(6))
    show "webhookDeliveries s' = webhookDeliveries ex_db_after" by (rule r(7))
    show "counterOf (rateLimits s') ''t1'' ''claim:ip:10.0.0.1'' 1000000 = 2" by (rule cip)
    show "counterOf (rateLimits s') ''t1'' ''claim:user:u2'' 1000000 = 2" by (rule cuser)
    show "rateLimits s' (''t1'', ''invalid_ref:ip:10.0.0.1'', 960000) = None" by (rule other)
  qed
qed

theorem claim_replay_counterexample:
  "getReferralByReferredExternalUserId ex_db_user_limited ''t1'' ''u2'' = Some ex_referral
   \<and> fst (POST_claim ex_env ''t1'' (ex_request ''REF123'' ''u2'') ex_db_user_limited)
       = ErrorResponse ''RATE_LIMITED'' 429 (Some 20)
   \<and> getReferralByReferredExternalUserId ex_db_claimed ''t1'' ''u2'' = Some ex_referral
   \<and> fst (POST_claim ex_env ''t1'' (ex_request '''' ''u2'') ex_db_claimed)
       = ErrorResponse ''INVALID_REQUEST'' 400 None"
  by (simp add: claim_defs rate_limit_defs example_defs Let_def)

text \<open>
  Claim C6, as amended. A claim that passes the per-IP check, the input checks and the
  per-user check, whose referred user has no referral yet and whose code belongs to no
  user of the tenant, increments the per-IP counter of invalid codes and fails, with
  REFERRAL_CODE_NOT_FOUND (404) or, from the guard on that counter, with RATE_LIMITED
  (429). It is RATE_LIMITED only when the counter ends above its limit, and always when
  the counter had reached the limit before the request and the store answers the check;
  so it is REFERRAL_CODE_NOT_FOUND whenever the counter is still within the limit after
  the request. The counter grows, by at most two. Either way no tenant, user, referral,
  ledger, event or delivery row is created or changed, and no rate-limit counter changes
  but the caller's three of the current window. The property is stated for a code and a
  user id free of the NUL character, which the database refuses.
\<close>

theorem claim_unknown_code:
  assumes ip: "admits (ce_ipStoreUp env) (rateLimits s) tenantId
                 (''claim:ip:'' @ getClientIp request) (ce_now env) CLAIM_PER_IP"
    and valid: "validatedInput request = Some input"
    and user: "admits (ce_userStoreUp env) (rateLimits s) tenantId
                 (''claim:user:'' @ referredUserId input) (ce_now env) CLAIM_PER_USER"
    and fresh: "getReferralByReferredExternalUserId s tenantId (referredUserId input) = None"
    and unknown: "getUserByReferralCode s tenantId (referralCode input) = None"
    and clean: "CHR 0x00 \<notin> set (referralCode input)" "CHR 0x00 \<notin> set (referredUserId input)"
  shows "\<exists>resp s'.
      handleClaimReferral env tenantId request s = (Inr resp, s')
    \<and> (resp = ErrorResponse ''REFERRAL_CODE_NOT_FOUND'' 404 None
        \<or> (\<exists>n. resp = ErrorResponse ''RATE_LIMITED'' 429 (Some n)))
    \<and> ((\<exists>n. resp = ErrorResponse ''RATE_LIMITED'' 429 (Some n)) \<longrightarrow>
          ce_invalidCheckStoreUp env
          \<and> INVALID_REF_PER_IP
              < counterOf (rateLimits s') tenantId (''invalid_ref:ip:'' @ getClientIp request)
                  (ce_now env))
    \<and> (ce_invalidCheckStoreUp env
        \<and> INVALID_REF_PER_IP
            \<le> counterOf (rateLimits s) tenantId (''invalid_ref:ip:'' @ getClientIp request)
                (ce_now env)
        \<longrightarrow> (\<exists>n. resp = ErrorResponse ''RATE_LIMITED'' 429 (Some n)))
    \<and> (counterOf (rateLimits s') tenantId (''invalid_ref:ip:'' @ getClientIp request)
            (ce_now env) \<le> INVALID_REF_PER_IP
        \<longrightarrow> resp = ErrorResponse ''REFERRAL_CODE_NOT_FOUND'' 404 None)
    \<and> (\<not> ce_invalidCheckStoreUp env
        \<longrightarrow> resp = ErrorResponse ''REFERRAL_CODE_NOT_FOUND'' 404 None)
    \<and> (ce_invalidIncrementStoreUp env \<longrightarrow>
          counterOf (rateLimits s) tenantId (''invalid_ref:ip:'' @ getClientIp request) (ce_now env)
          < counterOf (rateLimits s') tenantId (''invalid_ref:ip:'' @ getClientIp request)
              (ce_now env))
    \<and> counterOf (rateLimits s) tenantId (''invalid_ref:ip:'' @ getClientIp request) (ce_now env)
        \<le> counterOf (rateLimits s') tenantId (''invalid_ref:ip:'' @ getClientIp request)
            (ce_now env)
    \<and> counterOf (rateLimits s') tenantId (''invalid_ref:ip:'' @ getClientIp request) (ce_now env)
        \<le> counterOf (rateLimits s) tenantId (''invalid_ref:ip:'' @ getClientIp request)
            (ce_now env) + 2
    \<and> coreTables s' = coreTables s
    \<and> webhookDeliveries s' = webhookDeliveries s
    \<and> (\<forall>key.
          key \<noteq> (tenantId, ''claim:ip:'' @ getClientIp request,
                   ce_now env - (ce_now env mod WINDOW_MS))
          \<and> key \<noteq> (tenantId, ''claim:user:'' @ referredUserId input,
                     ce_now env - (ce_now env mod WINDOW_MS))
          \<and> key \<noteq> (tenantId, ''invalid_ref:ip:'' @ getClientIp request,
                     ce_now env - (ce_now env mod WINDOW_MS))
          \<longrightarrow> rateLimits s' key = rateLimits s key)"
proof -
  let ?ip = "getClientIp request"
  let ?k = "''invalid_ref:ip:'' @ ?ip"
  let ?s1 = "afterIpCheck env tenantId request s"
  let ?s2 = "afterUserCheck env tenantId input ?s1"
  let ?att = "invalidCodeAttempt env tenantId ?ip (rateLimits ?s2)"
  let ?s' = "?s2\<lparr>rateLimits := snd ?att\<rparr>"
  let ?resp = "if allowed (fst ?att) then ErrorResponse ''REFERRAL_CODE_NOT_FOUND'' 404 None
               else ErrorResponse ''RATE_LIMITED'' 429 (Some (retryAfterSeconds (fst ?att)))"
  let ?c = "counterOf (rateLimits s) tenantId ?k (ce_now env)"
  let ?c' = "counterOf (rateLimits ?s') tenantId ?k (ce_now env)"
  have user1: "admits (ce_userStoreUp env) (rateLimits ?s1) tenantId
                 (''claim:user:'' @ referredUserId input) (ce_now env) CLAIM_PER_USER"
    using user by (simp add: admits_afterIpCheck)
  have fresh1: "getReferralByReferredExternalUserId ?s1 tenantId (referredUserId input) = None"
    using fresh by (simp add: getReferralByReferredExternalUserId_def)
  have unknown1: "getUserByReferralCode ?s1 tenantId (referralCode input) = None"
    using unknown by (simp add: getUserByReferralCode_def)
  have "handleClaimReferral env tenantId request s
          = claimValidated env tenantId ?ip input ?s1"
    using ip valid by (rule handle_valid)
  also have "\<dots> = (Inr ?resp, ?s')"
    using cv_code_not_found [OF user1 fresh1 unknown1, of ?ip] by (simp add: Let_def)
  finally have run: "handleClaimReferral env tenantId request s = (Inr ?resp, ?s')" .
  have c0: "counterOf (rateLimits ?s2) tenantId ?k (ce_now env) = ?c"
    by (simp add: afterUserCheck_counter_other afterIpCheck_counter_other)
  have c3: "?c' = ?c + (if ce_invalidIncrementStoreUp env then 1 else 0)
                    + (if ce_invalidCheckStoreUp env then 1 else 0)"
    using c0 invalidCodeAttempt_counter [of env tenantId ?ip "rateLimits ?s2"] by simp
  have al: "allowed (fst ?att) \<longleftrightarrow>
     (if ce_invalidCheckStoreUp env
      then ?c + (if ce_incrementFirst env \<and> ce_invalidIncrementStoreUp env then 1 else 0) + 1
           \<le> INVALID_REF_PER_IP
      else True)"
    using c0 invalidCodeAttempt_allowed [of env tenantId ?ip "rateLimits ?s2"] by simp
  have cases: "?resp = ErrorResponse ''REFERRAL_CODE_NOT_FOUND'' 404 None
        \<or> (\<exists>n. ?resp = ErrorResponse ''RATE_LIMITED'' 429 (Some n))"
    by simp
  have limited: "(\<exists>n. ?resp = ErrorResponse ''RATE_LIMITED'' 429 (Some n)) \<longrightarrow>
          ce_invalidCheckStoreUp env \<and> INVALID_REF_PER_IP < ?c'"
    using al c3 by (auto split: if_splits)
  have used_up: "ce_invalidCheckStoreUp env \<and> INVALID_REF_PER_IP \<le> ?c
        \<longrightarrow> (\<exists>n. ?resp = ErrorResponse ''RATE_LIMITED'' 429 (Some n))"
    using al by (auto split: if_splits)
  have within: "?c' \<le> INVALID_REF_PER_IP
        \<longrightarrow> ?resp = ErrorResponse ''REFERRAL_CODE_NOT_FOUND'' 404 None"
    using al c3 by (auto split: if_splits)
  have down: "\<not> ce_invalidCheckStoreUp env
        \<longrightarrow> ?resp = ErrorResponse ''REFERRAL_CODE_NOT_FOUND'' 404 None"
    using al by simp
  have grows: "ce_invalidIncrementStoreUp env \<longrightarrow> ?c < ?c'" "?c \<le> ?c'" "?c' \<le> ?c + 2"
    using c3 by simp_all
  have tables: "coreTables ?s' = coreTables s" "webhookDeliveries ?s' = webhookDeliveries s"
    by (simp_all add: coreTables_def)
  have others: "\<forall>key.
          key \<noteq> (tenantId, ''claim:ip:'' @ ?ip, ce_now env - (ce_now env mod WINDOW_MS))
          \<and> key \<noteq> (tenantId, ''claim:user:'' @ referredUserId input,
                     ce_now env - (ce_now env mod WINDOW_MS))
          \<and> key \<noteq> (tenantId, ?k, ce_now env - (ce_now env mod WINDOW_MS))
          \<longrightarrow> rateLimits ?s' key = rateLimits s key"
    by (simp add: invalidCodeAttempt_rl_other afterUserCheck_rl_other afterIpCheck_rl_other)
  show ?thesis
  proof (intro exI conjI)
    show "handleClaimReferral env tenantId request s = (Inr ?resp, ?s')" by (rule run)
    show "?resp = ErrorResponse ''REFERRAL_CODE_NOT_FOUND'' 404 None
        \<or> (\<exists>n. ?resp = ErrorResponse ''RATE_LIMITED'' 429 (Some n))"
      by (rule cases)
    show "(\<exists>n. ?resp = ErrorResponse ''RATE_LIMITED'' 429 (Some n)) \<longrightarrow>
          ce_invalidCheckStoreUp env \<and> INVALID_REF_PER_IP < ?c'"
      by (rule limited)
    show "ce_invalidCheckStoreUp env \<and> INVALID_REF_PER_IP \<le> ?c
        \<longrightarrow> (\<exists>n. ?resp = ErrorResponse ''RATE_LIMITED'' 429 (Some n))"
      by (rule used_up)
    show "?c' \<le> INVALID_REF_PER_IP
        \<longrightarrow> ?resp = ErrorResponse ''REFERRAL_CODE_NOT_FOUND'' 404 None"
      by (rule within)
    show "\<not> ce_invalidCheckStoreUp env
        \<longrightarrow> ?resp = ErrorResponse ''REFERRAL_CODE_NOT_FOUND'' 404 None"
      by (rule down)
    show "ce_invalidIncrementStoreUp env \<longrightarrow> ?c < ?c'" by (rule grows(1))
    show "?c \<le> ?c'" by (rule grows(2))
    show "?c' \<le> ?c + 2" by (rule grows(3))
    show "coreTables ?s' = coreTables s" by (rule tables(1))
    show "webhookDeliveries ?s' = webhookDeliveries s" by (rule tables(2))
    show "\<forall>key.
          key \<noteq> (tenantId, ''claim:ip:'' @ ?ip, ce_now env - (ce_now env mod WINDOW_MS))
          \<and> key \<noteq> (tenantId, ''claim:user:'' @ referredUserId input,
                     ce_now env - (ce_now env mod WINDOW_MS))
          \<and> key \<noteq> (tenantId, ?k, ce_now env - (ce_now env mod WINDOW_MS))
          \<longrightarrow> rateLimits ?s' key = rateLimits s key"
      by (rule others)
  qed
qed

theorem claim_unknown_code_witness:
  "(\<exists>s'. handleClaimReferral ex_env ''t1'' (ex_request ''NOPE'' ''u2'') ex_db
          = (Inr (ErrorResponse ''REFERRAL_CODE_NOT_FOUND'' 404 None), s')
      \<and> 0 < counterOf (rateLimits s') ''t1'' ''invalid_ref:ip:10.0.0.1'' 1000000
      \<and> coreTables s' = coreTables ex_db
      \<and> webhookDeliveries s' = webhookDeliveries ex_db)
   \<and> (\<exists>s' n. handleClaimReferral (ex_env\<lparr>ce_incrementFirst := False\<rparr>) ''t1''
                 (ex_request ''NOPE'' ''u2'') ex_db_invalid_attempts
          = (Inr (ErrorResponse ''RATE_LIMITED'' 429 (Some n)), s')
      \<and> 6 < counterOf (rateLimits s') ''t1'' ''invalid_ref:ip:10.0.0.1'' 1000000
      \<and> coreTables s' = coreTables ex_db_invalid_attempts)"
proof -
  let ?input = "\<lparr> referralCode = ''NOPE'', referredUserId = ''u2'' \<rparr>"
  let ?req = "ex_request ''NOPE'' ''u2''"
  let ?env = "ex_env\<lparr>ce_incrementFirst := False\<rparr>"
  let ?k = "''invalid_ref:ip:'' @ getClientIp ?req"
  have clean: "CHR 0x00 \<notin> set (referralCode ?input)" "CHR 0x00 \<notin> set (referredUserId ?input)"
    by simp_all
  have step: "\<exists>resp s'.
        handleClaimReferral e ''t1'' ?req d = (Inr resp, s')
      \<and> (counterOf (rateLimits d) ''t1'' ''invalid_ref:ip:10.0.0.1'' 1000000 \<le> 3
            \<longrightarrow> resp = ErrorResponse ''REFERRAL_CODE_NOT_FOUND'' 404 None)
      \<and> (5 \<le> counterOf (rateLimits d) ''t1'' ''invalid_ref:ip:10.0.0.1'' 1000000
            \<longrightarrow> (\<exists>n. resp = ErrorResponse ''RATE_LIMITED'' 429 (Some n)))
      \<and> counterOf (rateLimits d) ''t1'' ''invalid_ref:ip:10.0.0.1'' 1000000
          < counterOf (rateLimits s') ''t1'' ''invalid_ref:ip:10.0.0.1'' 1000000
      \<and> coreTables s' = coreTables d
      \<and> webhookDeliveries s' = webhookDeliveries d"
    if e: "e = ex_env \<or> e = ?env" and d: "d = ex_db \<or> d = ex_db_invalid_attempts" for e d
  proof -
    have ip: "admits (ce_ipStoreUp e) (rateLimits d) ''t1''
                (''claim:ip:'' @ getClientIp ?req) (ce_now e) CLAIM_PER_IP"
      and user: "admits (ce_userStoreUp e) (rateLimits d) ''t1''
                (''claim:user:'' @ referredUserId ?input) (ce_now e) CLAIM_PER_USER"
      and fresh: "getReferralByReferredExternalUserId d ''t1'' (referredUserId ?input) = None"
      and unknown: "getUserByReferralCode d ''t1'' (referralCode ?input) = None"
      using e d
      by (auto simp: ex_client_ip admits_def counterOf_def WINDOW_MS_def CLAIM_PER_IP_def
          CLAIM_PER_USER_def ex_env_def ex_db_def ex_db_invalid_attempts_def
          getReferralByReferredExternalUserId_def getUserByReferralCode_def ex_referrer_def)
    have up: "ce_invalidCheckStoreUp e" "ce_invalidIncrementStoreUp e" "ce_now e = 1000000"
      using e by (auto simp: ex_env_def)
    from claim_unknown_code [OF ip ex_valid_input(2) user fresh unknown clean]
    obtain resp s' where r:
        "handleClaimReferral e ''t1'' ?req d = (Inr resp, s')"
        "resp = ErrorResponse ''REFERRAL_CODE_NOT_FOUND'' 404 None
         \<or> (\<exists>n. resp = ErrorResponse ''RATE_LIMITED'' 429 (Some n))"
        "(\<exists>n. resp = ErrorResponse ''RATE_LIMITED'' 429 (Some n)) \<longrightarrow>
           ce_invalidCheckStoreUp e
           \<and> INVALID_REF_PER_IP < counterOf (rateLimits s') ''t1'' ?k (ce_now e)"
        "ce_invalidCheckStoreUp e
         \<and> INVALID_REF_PER_IP \<le> counterOf (rateLimits d) ''t1'' ?k (ce_now e)
         \<longrightarrow> (\<exists>n. resp = ErrorResponse ''RATE_LIMITED'' 429 (Some n))"
        "ce_invalidIncrementStoreUp e \<longrightarrow>
           counterOf (rateLimits d) ''t1'' ?k (ce_now e)
           < counterOf (rateLimits s') ''t1'' ?k (ce_now e)"
        "counterOf (rateLimits d) ''t1'' ?k (ce_now e)
           \<le> counterOf (rateLimits s') ''t1'' ?k (ce_now e)"
        "counterOf (rateLimits s') ''t1'' ?k (ce_now e)
           \<le> counterOf (rateLimits d) ''t1'' ?k (ce_now e) + 2"
        "coreTables s' = coreTables d"
        "webhookDeliveries s' = webhookDeliveries d"
      by (elim exE conjE) (rule that; assumption)
    have k: "?k = ''invalid_ref:ip:10.0.0.1''"
      by (simp add: ex_client_ip)
    note r' = r(3-7) [unfolded k up(3)]
    have low: "resp = ErrorResponse ''REFERRAL_CODE_NOT_FOUND'' 404 None"
      if "counterOf (rateLimits d) ''t1'' ''invalid_ref:ip:10.0.0.1'' 1000000 \<le> 3"
      using that r(2) r'(1,5) by (auto simp: INVALID_REF_PER_IP_def)
    have high: "\<exists>n. resp = ErrorResponse ''RATE_LIMITED'' 429 (Some n)"
      if "5 \<le> counterOf (rateLimits d) ''t1'' ''invalid_ref:ip:10.0.0.1'' 1000000"
      using that r'(2) up(1) by (simp add: INVALID_REF_PER_IP_def)
    have grows: "counterOf (rateLimits d) ''t1'' ''invalid_ref:ip:10.0.0.1'' 1000000
          < counterOf (rateLimits s') ''t1'' ''invalid_ref:ip:10.0.0.1'' 1000000"
      using r'(3) up(2) by simp
    show ?thesis
    proof (intro exI conjI)
      show "handleClaimReferral e ''t1'' ?req d = (Inr resp, s')" by (rule r(1))
      show "counterOf (rateLimits d) ''t1'' ''invalid_ref:ip:10.0.0.1'' 1000000 \<le> 3
            \<longrightarrow> resp = ErrorResponse ''REFERRAL_CODE_NOT_FOUND'' 404 None"
        using low by (rule impI)
      show "5 \<le> counterOf (rateLimits d) ''t1'' ''invalid_ref:ip:10.0.0.1'' 1000000
            \<longrightarrow> (\<exists>n. resp = ErrorResponse ''RATE_LIMITED'' 429 (Some n))"
        using high by (rule impI)
      show "counterOf (rateLimits d) ''t1'' ''invalid_ref:ip:10.0.0.1'' 1000000
          < counterOf (rateLimits s') ''t1'' ''invalid_ref:ip:10.0.0.1'' 1000000"
        by (rule grows)
      show "coreTables s' = coreTables d" by (rule r(8))
      show "webhookDeliveries s' = webhookDeliveries d" by (rule r(9))
    qed
  qed
  have c0: "counterOf (rateLimits ex_db) ''t1'' ''invalid_ref:ip:10.0.0.1'' 1000000 = 0"
    by (simp add: counterOf_def ex_db_def)
  have c6: "counterOf (rateLimits ex_db_invalid_attempts) ''t1'' ''invalid_ref:ip:10.0.0.1''
              1000000 = 6"
    by (simp add: counterOf_def WINDOW_MS_def ex_db_def ex_db_invalid_attempts_def)
  have a: "\<exists>s'. handleClaimReferral ex_env ''t1'' ?req ex_db
          = (Inr (ErrorResponse ''REFERRAL_CODE_NOT_FOUND'' 404 None), s')
      \<and> 0 < counterOf (rateLimits s') ''t1'' ''invalid_ref:ip:10.0.0.1'' 1000000
      \<and> coreTables s' = coreTables ex_db
      \<and> webhookDeliveries s' = webhookDeliveries ex_db"
    using step [of ex_env ex_db] unfolding c0 by auto
  have b: "\<exists>s' n. handleClaimReferral ?env ''t1'' ?req ex_db_invalid_attempts
          = (Inr (ErrorResponse ''RATE_LIMITED'' 429 (Some n)), s')
      \<and> 6 < counterOf (rateLimits s') ''t1'' ''invalid_ref:ip:10.0.0.1'' 1000000
      \<and> coreTables s' = coreTables ex_db_invalid_attempts"
    using step [of ?env ex_db_invalid_attempts] unfolding c6 by auto
  from a b show ?thesis by (rule conjI)
qed

theorem claim_unknown_code_counterexample:
  "getUserByReferralCode ex_db_invalid_attempts ''t1'' ''NOPE'' = None
   \<and> fst (POST_claim ex_env ''t1'' (ex_request ''NOPE'' ''u2'') ex_db_invalid_attempts)
       = ErrorResponse ''RATE_LIMITED'' 429 (Some 20)
   \<and> fst (POST_claim (ex_env\<lparr>ce_incrementFirst := False\<rparr>) ''t1''
            (ex_request ''NOPE'' ''u2'') ex_db_invalid_attempts)
       = ErrorResponse ''RATE_LIMITED'' 429 (Some 20)
   \<and> getUserByReferralCode ex_db_claimed ''t1'' ''NOPE'' = None
   \<and> fst (POST_claim ex_env ''t1'' (ex_request ''NOPE'' ''u2'') ex_db_claimed)
       = SuccessResponse
           \<lparr> cr_referral =
               \<lparr> rv_id = ''R1'', rv_referrerUserId = ''u1'', rv_referredExternalUserId = ''u2'',
                 rv_refCodeUsed = ''REF123'', rv_status = ''completed'',
                 rv_createdAt = 1000000 \<rparr>,
             cr_referrerReward = None, cr_referredReward = None,
             cr_alreadyProcessed = True \<rparr>
           200"
  by (simp add: claim_defs rate_limit_defs example_defs Let_def)

lemma claimTransaction_enqueue_flag:
  "claimTransaction (env\<lparr>ce_enqueueFails := b\<rparr>) t i r tn ru s = claimTransaction env t i r tn ru s"
  by (simp add: claimTransaction_def Let_def split_def cong: option.case_cong if_cong)

lemma enqueueAfterCommit_core:
  "coreTables (enqueueAfterCommit env t e s) = coreTables s"
  "rateLimits (enqueueAfterCommit env t e s) = rateLimits s"
  by (simp_all add: enqueueAfterCommit_def enqueueWebhookForExistingEvent_def
      enqueueWebhookDelivery_def coreTables_def Let_def split: option.splits)

lemma invalidCodeAttempt_enqueue_flag:
  "invalidCodeAttempt (env\<lparr>ce_enqueueFails := b\<rparr>) t ip rl = invalidCodeAttempt env t ip rl"
  by (simp add: invalidCodeAttempt_def Let_def split_def cong: if_cong)

lemma cv_enqueue_indep:
  "fst (claimValidated (env\<lparr>ce_enqueueFails := b\<rparr>) t ip i s) = fst (claimValidated env t ip i s)
   \<and> coreTables (snd (claimValidated (env\<lparr>ce_enqueueFails := b\<rparr>) t ip i s))
       = coreTables (snd (claimValidated env t ip i s))
   \<and> rateLimits (snd (claimValidated (env\<lparr>ce_enqueueFails := b\<rparr>) t ip i s))
       = rateLimits (snd (claimValidated env t ip i s))"
  by (simp add: claimValidated_def Let_def split_def claimTransaction_enqueue_flag
      invalidCodeAttempt_enqueue_flag enqueueAfterCommit_core
      split: option.splits sum.splits tx_result.splits)

lemma handle_enqueue_indep:
  "fst (handleClaimReferral (env\<lparr>ce_enqueueFails := b\<rparr>) t r s) = fst (handleClaimReferral env t r s)
   \<and> coreTables (snd (handleClaimReferral (env\<lparr>ce_enqueueFails := b\<rparr>) t r s))
       = coreTables (snd (handleClaimReferral env t r s))
   \<and> rateLimits (snd (handleClaimReferral (env\<lparr>ce_enqueueFails := b\<rparr>) t r s))
       = rateLimits (snd (handleClaimReferral env t r s))"
  using cv_enqueue_indep [where env=env and b=b and t=t]
  by (simp add: handleClaimReferral_def Let_def split_def split: option.splits)

text \<open>
  Claim C7. The response of a claim does not depend on whether the enqueue after the
  commit fails: the caller gets the same response, and the tenant, user, referral, ledger
  and event rows and the rate-limit counters are the same, in both cases.
\<close>

theorem claim_response_independent_of_enqueue:
  "fst (POST_claim (env\<lparr>ce_enqueueFails := True\<rparr>) tenantId request s)
     = fst (POST_claim (env\<lparr>ce_enqueueFails := False\<rparr>) tenantId request s)
   \<and> coreTables (snd (POST_claim (env\<lparr>ce_enqueueFails := True\<rparr>) tenantId request s))
       = coreTables (snd (POST_claim (env\<lparr>ce_enqueueFails := False\<rparr>) tenantId request s))
   \<and> rateLimits (snd (POST_claim (env\<lparr>ce_enqueueFails := True\<rparr>) tenantId request s))
       = rateLimits (snd (POST_claim (env\<lparr>ce_enqueueFails := False\<rparr>) tenantId request s))"
proof -
  have post: "fst (POST_claim e tenantId request s)
                = (case fst (handleClaimReferral e tenantId request s) of
                     Inl err \<Rightarrow> ErrorResponse ''INTERNAL'' 500 None | Inr r \<Rightarrow> r)"
     "snd (POST_claim e tenantId request s) = snd (handleClaimReferral e tenantId request s)"
    for e
    by (simp_all add: POST_claim_def split: prod.splits sum.splits)
  show ?thesis
    using handle_enqueue_indep [where env=env and b=True and t=tenantId and r=request and s=s]
      handle_enqueue_indep [where env=env and b=False and t=tenantId and r=request and s=s]
    by (simp add: post)
qed

theorem claim_response_independent_of_enqueue_witness:
  "fst (POST_claim (ex_env\<lparr>ce_enqueueFails := True\<rparr>) ''t1'' (ex_request ''REF123'' ''u2'') ex_db)
     = SuccessResponse
         \<lparr> cr_referral =
             \<lparr> rv_id = ''R1'', rv_referrerUserId = ''u1'', rv_referredExternalUserId = ''u2'',
               rv_refCodeUsed = ''REF123'', rv_status = ''completed'',
               rv_createdAt = 1000000 \<rparr>,
           cr_referrerReward = Some \<lparr> ra_amount = 200, ra_currency = ''AUD'' \<rparr>,
           cr_referredReward = None,
           cr_alreadyProcessed = False \<rparr>
         201
   \<and> coreTables (snd (POST_claim (ex_env\<lparr>ce_enqueueFails := True\<rparr>) ''t1''
                         (ex_request ''REF123'' ''u2'') ex_db))
       = coreTables ex_db_after"
proof -
  have same: "ex_env\<lparr>ce_enqueueFails := False\<rparr> = ex_env"
    by (simp add: ex_env_def)
  have post: "POST_claim ex_env ''t1'' (ex_request ''REF123'' ''u2'') ex_db
      = (SuccessResponse
         \<lparr> cr_referral =
             \<lparr> rv_id = ''R1'', rv_referrerUserId = ''u1'', rv_referredExternalUserId = ''u2'',
               rv_refCodeUsed = ''REF123'', rv_status = ''completed'',
               rv_createdAt = 1000000 \<rparr>,
           cr_referrerReward = Some \<lparr> ra_amount = 200, ra_currency = ''AUD'' \<rparr>,
           cr_referredReward = None,
           cr_alreadyProcessed = False \<rparr>
         201, ex_db_after)"
    by (simp add: POST_claim_def scenario_first_claim)
  show ?thesis
    using claim_response_independent_of_enqueue [of ex_env "''t1''"
        "ex_request ''REF123'' ''u2''" ex_db]
    by (simp add: same post)
qed

lemma alreadyProcessedResponse_not_error:
  "alreadyProcessedResponse s r \<noteq> ErrorResponse c st d"
  by (simp add: alreadyProcessedResponse_def Let_def)

lemma invalidCodeAttempt_down:
  "\<not> ce_invalidCheckStoreUp env \<Longrightarrow> allowed (fst (invalidCodeAttempt env t ip rl))"
  by (simp add: invalidCodeAttempt_allowed)

lemma cv_store_down:
  "\<not> ce_userStoreUp env \<Longrightarrow> \<not> ce_invalidCheckStoreUp env \<Longrightarrow>
   fst (claimValidated env t ip i s) \<noteq> Inr (ErrorResponse ''RATE_LIMITED'' st d)"
  by (simp add: claimValidated_def Let_def split_def checkRateLimit_down invalidCodeAttempt_down
      alreadyProcessedResponse_not_error createdResponse_def
      split: option.splits sum.splits tx_result.splits)

text \<open>
  Claim C9. The rate limiter fails open: when the store does not execute its statement,
  \<open>checkRateLimit\<close> allows the request, with zero seconds to wait and the counters as
  they were; and with the store down no claim is answered RATE_LIMITED.
\<close>

theorem rate_limiter_fails_open:
  "checkRateLimit False now config rl =
     (\<lparr> allowed = True, remaining = rl_limit config,
        resetAt = ceilDiv1000 (now - now mod WINDOW_MS + WINDOW_MS), retryAfterSeconds = 0 \<rparr>, rl)
   \<and> (\<not> ce_ipStoreUp env \<and> \<not> ce_userStoreUp env \<and> \<not> ce_invalidCheckStoreUp env
       \<longrightarrow> (\<forall>status detail.
             fst (POST_claim env tenantId request s)
               \<noteq> ErrorResponse ''RATE_LIMITED'' status detail))"
proof (intro conjI impI allI)
  show "checkRateLimit False now config rl =
     (\<lparr> allowed = True, remaining = rl_limit config,
        resetAt = ceilDiv1000 (now - now mod WINDOW_MS + WINDOW_MS), retryAfterSeconds = 0 \<rparr>, rl)"
    by (rule checkRateLimit_down)
next
  fix status detail
  assume down: "\<not> ce_ipStoreUp env \<and> \<not> ce_userStoreUp env \<and> \<not> ce_invalidCheckStoreUp env"
  then have cv: "fst (claimValidated env tenantId ip i s') \<noteq> Inr (ErrorResponse ''RATE_LIMITED'' status detail)"
    for ip i s'
    by (simp add: cv_store_down)
  have h: "fst (handleClaimReferral env tenantId request s)
             \<noteq> Inr (ErrorResponse ''RATE_LIMITED'' status detail)"
    using down cv
    by (simp add: handleClaimReferral_def Let_def split_def checkRateLimit_down
        split: option.splits)
  then show "fst (POST_claim env tenantId request s) \<noteq> ErrorResponse ''RATE_LIMITED'' status detail"
    by (auto simp: POST_claim_def split: prod.splits sum.splits)
qed

theorem rate_limiter_fails_open_witness:
  "allowed (fst (checkRateLimit False 1000000
       \<lparr> rl_key = ''claim:ip:10.0.0.1'', rl_tenantId = ''t1'', rl_limit = CLAIM_PER_IP \<rparr>
       (rateLimits ex_db_ip_limited)))
   \<and> fst (POST_claim ex_env_down ''t1'' (ex_request ''REF123'' ''u2'') ex_db_ip_limited)
       \<noteq> ErrorResponse ''RATE_LIMITED'' 429 (Some 20)"
  using rate_limiter_fails_open [where now = 1000000
      and config = "\<lparr> rl_key = ''claim:ip:10.0.0.1'', rl_tenantId = ''t1'',
                      rl_limit = CLAIM_PER_IP \<rparr>"
      and rl = "rateLimits ex_db_ip_limited" and env = ex_env_down and tenantId = "''t1''"
      and request = "ex_request ''REF123'' ''u2''" and s = ex_db_ip_limited]
  by (simp add: ex_env_down_def ex_env_def)

end
